theory Spec2Isabelle
  imports Complex_Main "HOL-Library.AList"
begin

section \<open>Values of the JavaScript program\<close>

text \<open>
  What \<^verbatim>\<open>JSON.parse\<close> returns. A number is kept as the rational it denotes (both zeros are
  \<open>0\<close>); an object is the list of its properties, read with \<open>map_of\<close>.
\<close>

datatype json =
    JNull
  | JBool bool
  | JNumber rat
  | JString string
  | JArray "json list"
  | JObject "(string \<times> json) list"

text \<open>Thrown values; the jobs only ever read \<^verbatim>\<open>error.message\<close>.\<close>

datatype js_error =
    Error string
  | TypeError string
  | SyntaxError string
  | RangeError string

fun message :: "js_error \<Rightarrow> string" where
  "message (Error m) = m"
| "message (TypeError m) = m"
| "message (SyntaxError m) = m"
| "message (RangeError m) = m"

text \<open>
  \<^verbatim>\<open>value.name\<close> for a value that is not \<^verbatim>\<open>null\<close>: \<open>None\<close> is \<^verbatim>\<open>undefined\<close>. Only objects
  carry the properties the jobs read (title, author, userId, ...); numbers, strings,
  booleans and arrays have none of them. Reading a property of \<^verbatim>\<open>null\<close> throws, which
  each caller writes out with \<open>null_read\<close>.
\<close>

fun field :: "json \<Rightarrow> string \<Rightarrow> json option" where
  "field (JObject fs) k = map_of fs k"
| "field _ k = None"

definition null_read :: "string \<Rightarrow> js_error" where
  "null_read k =
     TypeError (''Cannot read properties of null (reading '' @ [CHR 0x27] @ k @ [CHR 0x27] @ '')'')"

text \<open>JavaScript truthiness of a value that may be \<^verbatim>\<open>undefined\<close>.\<close>

fun truthy :: "json option \<Rightarrow> bool" where
  "truthy None = False"
| "truthy (Some JNull) = False"
| "truthy (Some (JBool b)) = b"
| "truthy (Some (JNumber n)) = (n \<noteq> 0)"
| "truthy (Some (JString s)) = (s \<noteq> [])"
| "truthy (Some (JArray xs)) = True"
| "truthy (Some (JObject fs)) = True"

text \<open>\<^verbatim>\<open>v || d\<close>.\<close>

fun or_else :: "json option \<Rightarrow> json \<Rightarrow> json" where
  "or_else None d = d"
| "or_else (Some v) d = (if truthy (Some v) then v else d)"

text \<open>An object literal handed to a library: a property may hold \<^verbatim>\<open>undefined\<close>.\<close>

type_synonym js_object = "(string \<times> json option) list"

text \<open>\<^verbatim>\<open>String(n)\<close> for a non-negative integer below \<open>10^21\<close>, as in \<^verbatim>\<open>`${Date.now()}`\<close>.\<close>

definition digit_char :: "nat \<Rightarrow> char" where
  "digit_char d = ''0123456789'' ! d"

fun decimal :: "nat \<Rightarrow> string" where
  "decimal n = (if n < 10 then [digit_char n] else decimal (n div 10) @ [digit_char (n mod 10)])"

declare decimal.simps [simp del]

text \<open>Reading the digits back, as \<^verbatim>\<open>parseInt\<close> does; used to tell two printed numbers apart.\<close>

definition digit_value :: "char \<Rightarrow> nat" where
  "digit_value c = length (takeWhile (\<lambda>x. x \<noteq> c) ''0123456789'')"

definition read_decimal :: "string \<Rightarrow> nat" where
  "read_decimal s = foldl (\<lambda>a c. 10 * a + digit_value c) 0 s"

text \<open>\<^verbatim>\<open>s.split(c)\<close> for a one-character separator.\<close>

fun str_split :: "char \<Rightarrow> string \<Rightarrow> string list" where
  "str_split c [] = [[]]"
| "str_split c (x # xs) =
     (if x = c then [] # str_split c xs
      else (case str_split c xs of [] \<Rightarrow> [[x]] | y # ys \<Rightarrow> (x # y) # ys))"

text \<open>
  \<^verbatim>\<open>key.split(':')[1]\<close>. A key without a colon would give \<^verbatim>\<open>undefined\<close>; the keys a job
  iterates over all match \<^verbatim>\<open>prefix:*\<close>, so that branch is never taken there.
\<close>

definition key_user :: "string \<Rightarrow> string" where
  "key_user key = (case str_split (CHR '':'') key of a # u # rest \<Rightarrow> u | _ \<Rightarrow> ''undefined'')"

section \<open>The world the jobs run in\<close>

text \<open>The \<^verbatim>\<open>mailOptions\<close> of \<^verbatim>\<open>sendReportEmail\<close>; the HTML body is a template filled
  from the status data and the user id, which is what \<open>html_data\<close> keeps of it.\<close>

record mail =
  mail_from :: string
  mail_to :: string
  subject :: string
  html_data :: "json \<times> string"
  attachment_filename :: string
  attachment_content :: string

text \<open>A JavaScript Number that is not a negative zero.\<close>

datatype number =
    Finite rat
  | PosInfinity
  | NegInfinity
  | NaN

text \<open>
  The Redis server is the association list \<open>kv\<close>: key, value and the expiry in seconds the
  value was stored with (\<open>None\<close>: no expiry). The passing of time is not applied to the
  expiry. \<open>faults\<close> is the fate of the coming Redis commands, one flag per command: \<open>True\<close>
  rejects the command (the client throws), an exhausted list accepts everything.
  \<open>db\<close> is the state of the document store. \<open>now\<close> is the clock in epoch milliseconds and
  \<open>ticks\<close> the time that passes after each reading of it. \<open>outbox\<close> holds the messages the
  mail transport has accepted.
\<close>

record 'db world =
  kv :: "(string \<times> string \<times> nat option) list"
  faults :: "bool list"
  db :: 'db
  now :: nat
  ticks :: "nat list"
  outbox :: "mail list"

definition rejected :: "'db world \<Rightarrow> bool" where
  "rejected w = (case faults w of [] \<Rightarrow> False | f # fs \<Rightarrow> f)"

definition issued :: "'db world \<Rightarrow> 'db world" where
  "issued w = (case faults w of [] \<Rightarrow> w | f # fs \<Rightarrow> w\<lparr>faults := fs\<rparr>)"

definition redis_error :: js_error where
  "redis_error = Error ''Socket closed unexpectedly''"

text \<open>The pattern \<^verbatim>\<open>prefix*\<close> of \<^verbatim>\<open>KEYS\<close>.\<close>

definition starts_with :: "string \<Rightarrow> string \<Rightarrow> bool" where
  "starts_with pfx k = (take (length pfx) k = pfx)"

definition redis_keys :: "string \<Rightarrow> 'db world \<Rightarrow> (js_error + string list) \<times> 'db world" where
  "redis_keys pfx w =
     (if rejected w then (Inl redis_error, issued w)
      else (Inr (filter (starts_with pfx) (map fst (kv w))), issued w))"

definition redis_get :: "string \<Rightarrow> 'db world \<Rightarrow> (js_error + string option) \<times> 'db world" where
  "redis_get k w =
     (if rejected w then (Inl redis_error, issued w)
      else (Inr (map_option fst (map_of (kv w) k)), issued w))"

definition redis_setEx :: "string \<Rightarrow> nat \<Rightarrow> string \<Rightarrow> 'db world \<Rightarrow> (js_error + unit) \<times> 'db world" where
  "redis_setEx k ttl v w =
     (if rejected w then (Inl redis_error, issued w)
      else (Inr (), (issued w)\<lparr>kv := AList.update k (v, Some ttl) (kv w)\<rparr>))"

definition redis_del :: "string \<Rightarrow> 'db world \<Rightarrow> (js_error + unit) \<times> 'db world" where
  "redis_del k w =
     (if rejected w then (Inl redis_error, issued w)
      else (Inr (), (issued w)\<lparr>kv := AList.delete k (kv w)\<rparr>))"

text \<open>\<^verbatim>\<open>Date.now()\<close>: the reading, and the world in which the clock has moved on.\<close>

definition Date_now :: "'db world \<Rightarrow> nat \<times> 'db world" where
  "Date_now w =
     (now w, (case ticks w of [] \<Rightarrow> w | d # ds \<Rightarrow> w\<lparr>now := now w + d, ticks := ds\<rparr>))"

text \<open>
  A user document as \<^verbatim>\<open>getUserEmail\<close> reads it: \<open>None\<close> is a document without an
  \<^verbatim>\<open>email\<close> property.
\<close>

record user =
  email :: "string option"

text \<open>
  The libraries and the configuration the jobs are given. \<open>JSON_parse\<close>,
  \<open>JSON_stringify\<close> and \<open>toISOString\<close> are the built-ins of these names. \<open>fl\<close> rounds the
  exact result of an arithmetic operation to a Number and \<open>Number_toFixed\<close> prints a
  finite Number with the given count of decimals. \<open>Book_save\<close> is \<^verbatim>\<open>new Book(doc).save()\<close>
  and \<open>User_findById\<close> is \<^verbatim>\<open>User.findById\<close> (\<^verbatim>\<open>./models\<close> is not part of the sources).
  \<open>pdfkit\<close> is what the PDFKit calls of \<^verbatim>\<open>generatePDFReport\<close> come to for a status, a user
  id and the two clock readings printed in the header: the buffer, or what was thrown.
  \<open>sendMail\<close> is \<^verbatim>\<open>transporter.sendMail\<close>, returning the message id. \<open>DEFAULT_EMAIL\<close> and
  \<open>EMAIL_FROM\<close> are the environment variables.
\<close>

record 'db env =
  JSON_parse :: "string \<Rightarrow> js_error + json"
  JSON_stringify :: "json \<Rightarrow> string"
  toISOString :: "nat \<Rightarrow> string"
  fl :: "rat \<Rightarrow> number"
  Number_toFixed :: "rat \<Rightarrow> nat \<Rightarrow> string"
  Book_save :: "'db \<Rightarrow> js_object \<Rightarrow> js_error + 'db"
  User_findById :: "'db \<Rightarrow> string \<Rightarrow> js_error + user option"
  pdfkit :: "json \<Rightarrow> string \<Rightarrow> nat \<Rightarrow> nat \<Rightarrow> js_error + string"
  sendMail :: "mail \<Rightarrow> js_error + string"
  DEFAULT_EMAIL :: "string option"
  EMAIL_FROM :: "string option"

section \<open>The Ingestion Job (bulkCron.js)\<close>

text \<open>The status object of lines 63-70 and the entries pushed on its \<^verbatim>\<open>failures\<close>.\<close>

record failure =
  index :: nat
  title :: json
  error :: string

record status =
  userId :: string
  totalBooks :: nat
  successCount :: nat
  failureCount :: nat
  timestamp :: string
  failures :: "failure list"

definition failure_json :: "failure \<Rightarrow> json" where
  "failure_json f =
     JObject [(''index'', JNumber (of_nat (index f))), (''title'', title f),
              (''error'', JString (error f))]"

definition status_json :: "status \<Rightarrow> json" where
  "status_json s =
     JObject [(''userId'', JString (userId s)),
              (''totalBooks'', JNumber (of_nat (totalBooks s))),
              (''successCount'', JNumber (of_nat (successCount s))),
              (''failureCount'', JNumber (of_nat (failureCount s))),
              (''timestamp'', JString (timestamp s)),
              (''failures'', JArray (map failure_json (failures s)))]"

definition missing_fields :: js_error where
  "missing_fields = Error ''Missing required fields: title and author''"

text \<open>The object given to \<^verbatim>\<open>new Book\<close> (lines 83-91).\<close>

definition new_Book :: "string \<Rightarrow> json \<Rightarrow> js_object" where
  "new_Book uid book =
     [(''title'', field book ''title''),
      (''author'', field book ''author''),
      (''isbn'', Some (or_else (field book ''isbn'') JNull)),
      (''publishedDate'', Some (or_else (field book ''publishedDate'') JNull)),
      (''genre'', Some (or_else (field book ''genre'') JNull)),
      (''description'', Some (or_else (field book ''description'') JNull)),
      (''userId'', Some (JString uid))]"

text \<open>
  The \<^verbatim>\<open>try\<close> block of one submission (lines 76-97): the new state of the document store,
  or what was thrown.
\<close>

definition insertBook :: "'db env \<Rightarrow> string \<Rightarrow> json \<Rightarrow> 'db \<Rightarrow> js_error + 'db" where
  "insertBook env uid book d =
     (if book = JNull then Inl (null_read ''title'')
      else if \<not> truthy (field book ''title'') \<or> \<not> truthy (field book ''author'')
        then Inl missing_fields
      else Book_save env d (new_Book uid book))"

text \<open>
  The loop of lines 73-108 from position \<open>i\<close> on. The \<^verbatim>\<open>catch\<close> block reads
  \<^verbatim>\<open>book.title\<close> again, so for a \<^verbatim>\<open>null\<close> submission it throws in turn and the loop is
  left with that error.
\<close>

fun process_books ::
  "'db env \<Rightarrow> string \<Rightarrow> json list \<Rightarrow> nat \<Rightarrow> status \<Rightarrow> 'db \<Rightarrow> (js_error + status) \<times> 'db" where
  "process_books env uid [] i st d = (Inr st, d)"
| "process_books env uid (book # rest) i st d =
     (case insertBook env uid book d of
        Inr d' \<Rightarrow>
          process_books env uid rest (Suc i) (st\<lparr>successCount := Suc (successCount st)\<rparr>) d'
      | Inl e \<Rightarrow>
          if book = JNull then (Inl (null_read ''title''), d)
          else process_books env uid rest (Suc i)
                 (st\<lparr>failureCount := Suc (failureCount st),
                     failures := failures st @
                       [\<lparr>index = i, title = or_else (field book ''title'') (JString ''Unknown''),
                         error = message e\<rparr>]\<rparr>) d)"

text \<open>
  The outer \<^verbatim>\<open>try\<close> block for one key (lines 43-121); \<open>Inr ()\<close> is reaching its end or a
  \<^verbatim>\<open>continue\<close>.
\<close>

definition process_batch ::
  "'db env \<Rightarrow> string \<Rightarrow> string \<Rightarrow> json list \<Rightarrow> 'db world \<Rightarrow> (js_error + unit) \<times> 'db world" where
  "process_batch env key uid books w =
     (case Date_now w of (t0, w1) \<Rightarrow>
        (case process_books env uid books 0
                \<lparr>userId = uid, totalBooks = length books, successCount = 0, failureCount = 0,
                 timestamp = toISOString env t0, failures = []\<rparr> (db w1) of
           (Inl e, d) \<Rightarrow> (Inl e, w1\<lparr>db := d\<rparr>)
         | (Inr st, d) \<Rightarrow>
             (case Date_now (w1\<lparr>db := d\<rparr>) of (t, w2) \<Rightarrow>
                (case redis_setEx (''bulk_status:'' @ uid @ '':'' @ decimal t) 86400
                        (JSON_stringify env (status_json st)) w2 of
                   (Inl e, w3) \<Rightarrow> (Inl e, w3)
                 | (Inr u, w3) \<Rightarrow> redis_del key w3))))"

definition process_entry ::
  "'db env \<Rightarrow> string \<Rightarrow> string \<Rightarrow> 'db world \<Rightarrow> (js_error + unit) \<times> 'db world" where
  "process_entry env key uid w =
     (case redis_get key w of
        (Inl e, w1) \<Rightarrow> (Inl e, w1)
      | (Inr None, w1) \<Rightarrow> (Inr (), w1)
      | (Inr (Some booksData), w1) \<Rightarrow>
          if booksData = [] then (Inr (), w1)
          else (case JSON_parse env booksData of
                  Inl e \<Rightarrow> (Inl e, w1)
                | Inr (JArray (b # bs)) \<Rightarrow> process_batch env key uid (b # bs) w1
                | Inr other \<Rightarrow> redis_del key w1))"

text \<open>
  One iteration of the loop over the keys (lines 39-139), with the \<^verbatim>\<open>catch\<close> block of
  lines 123-138. \<open>Inl\<close> is an error that leaves the loop: the handler's own write failed.
\<close>

definition process_key :: "'db env \<Rightarrow> string \<Rightarrow> 'db world \<Rightarrow> (js_error + unit) \<times> 'db world" where
  "process_key env key w =
     (case process_entry env key (key_user key) w of
        (Inr u, w1) \<Rightarrow> (Inr (), w1)
      | (Inl e, w1) \<Rightarrow>
          (case Date_now w1 of (t0, w2) \<Rightarrow>
             (case Date_now w2 of (t, w3) \<Rightarrow>
                redis_setEx (''bulk_error:'' @ key_user key @ '':'' @ decimal t) 86400
                  (JSON_stringify env
                     (JObject [(''userId'', JString (key_user key)),
                               (''error'', JString (message e)),
                               (''timestamp'', JString (toISOString env t0)),
                               (''status'', JString ''failed'')])) w3)))"

fun for_keys ::
  "('db world \<Rightarrow> string \<Rightarrow> (js_error + unit) \<times> 'db world) \<Rightarrow> string list \<Rightarrow> 'db world \<Rightarrow>
     (js_error + unit) \<times> 'db world" where
  "for_keys body [] w = (Inr (), w)"
| "for_keys body (key # keys) w =
     (case body w key of
        (Inl e, w1) \<Rightarrow> (Inl e, w1)
      | (Inr u, w1) \<Rightarrow> for_keys body keys w1)"

text \<open>
  \<^verbatim>\<open>processBulkBooks\<close>: the scan for the keys, the loop, and the outermost \<^verbatim>\<open>catch\<close> (lines
  142-144), which only logs.
\<close>

definition processBulkBooks :: "'db env \<Rightarrow> 'db world \<Rightarrow> 'db world" where
  "processBulkBooks env w =
     (case redis_keys ''bulk_books:'' w of
        (Inl e, w1) \<Rightarrow> w1
      | (Inr keys, w1) \<Rightarrow>
          if keys = [] then w1 else snd (for_keys (\<lambda>w' key. process_key env key w') keys w1))"

section \<open>The Report Job\<close>

text \<open>
  The success rate of both renderings (line 274 of the PDF, line 373 of the message):
  \<^verbatim>\<open>((statusData.successCount / statusData.totalBooks) * 100).toFixed(2)\<close>, for the counts
  of a status record. Division by zero is defined for Numbers and does not throw;
  \<^verbatim>\<open>toFixed\<close> throws for a count of decimals above 100 only.
\<close>

definition js_divide :: "'db env \<Rightarrow> nat \<Rightarrow> nat \<Rightarrow> number" where
  "js_divide env s t =
     (if t = 0 then (if s = 0 then NaN else PosInfinity) else fl env (of_nat s / of_nat t))"

definition js_multiply :: "'db env \<Rightarrow> number \<Rightarrow> nat \<Rightarrow> number" where
  "js_multiply env x c =
     (case x of
        Finite q \<Rightarrow> fl env (q * of_nat c)
      | PosInfinity \<Rightarrow> (if c = 0 then NaN else PosInfinity)
      | NegInfinity \<Rightarrow> (if c = 0 then NaN else NegInfinity)
      | NaN \<Rightarrow> NaN)"

definition toFixed :: "'db env \<Rightarrow> number \<Rightarrow> nat \<Rightarrow> js_error + string" where
  "toFixed env x digits =
     (if digits > 100 then Inl (RangeError ''toFixed() digits argument must be between 0 and 100'')
      else Inr (case x of
                  Finite q \<Rightarrow> Number_toFixed env q digits
                | PosInfinity \<Rightarrow> ''Infinity''
                | NegInfinity \<Rightarrow> ''-Infinity''
                | NaN \<Rightarrow> ''NaN''))"

definition success_rate :: "'db env \<Rightarrow> status \<Rightarrow> js_error + string" where
  "success_rate env statusData =
     toFixed env (js_multiply env (js_divide env (successCount statusData) (totalBooks statusData)) 100) 2"

text \<open>The four lines of the summary section of the PDF (lines 271-274).\<close>

definition pdf_summary :: "'db env \<Rightarrow> status \<Rightarrow> js_error + string list" where
  "pdf_summary env statusData =
     (case success_rate env statusData of
        Inl e \<Rightarrow> Inl e
      | Inr rate \<Rightarrow>
          Inr [''Total Books Processed: '' @ decimal (totalBooks statusData),
               ''Successful Insertions: '' @ decimal (successCount statusData),
               ''Failed Insertions: '' @ decimal (failureCount statusData),
               ''Success Rate: '' @ rate @ ''%''])"

text \<open>The success-rate item of the message body (line 373).\<close>

definition mail_rate_item :: "'db env \<Rightarrow> status \<Rightarrow> js_error + string" where
  "mail_rate_item env statusData =
     (case success_rate env statusData of
        Inl e \<Rightarrow> Inl e
      | Inr rate \<Rightarrow> Inr (''<li><strong>Success Rate:</strong> '' @ rate @ ''%</li>''))"

text \<open>
  \<^verbatim>\<open>generatePDFReport\<close> for the parsed status: the header reads the clock twice, the rest is
  PDFKit's work.
\<close>

definition generatePDFReport ::
  "'db env \<Rightarrow> json \<Rightarrow> string \<Rightarrow> 'db world \<Rightarrow> (js_error + string) \<times> 'db world" where
  "generatePDFReport env statusData uid w =
     (case Date_now w of (t1, w1) \<Rightarrow>
        (case Date_now w1 of (t2, w2) \<Rightarrow> (pdfkit env statusData uid t1 t2, w2)))"

text \<open>A string that is neither \<^verbatim>\<open>null\<close>/\<^verbatim>\<open>undefined\<close> nor empty, that is, a truthy one.\<close>

fun nonempty :: "string option \<Rightarrow> string option" where
  "nonempty None = None"
| "nonempty (Some s) = (if s = [] then None else Some s)"

text \<open>
  \<^verbatim>\<open>getUserEmail\<close> (lines 324-345); its \<^verbatim>\<open>catch\<close> logs and throws the error again.
  \<open>user_address\<close> is \<^verbatim>\<open>user && user.email\<close> where that is truthy, \<open>default_address\<close> is
  \<^verbatim>\<open>process.env.DEFAULT_EMAIL || 'admin@example.com'\<close>.
\<close>

definition user_address :: "user option \<Rightarrow> string option" where
  "user_address found = nonempty (case found of None \<Rightarrow> None | Some u \<Rightarrow> email u)"

definition default_address :: "'db env \<Rightarrow> string" where
  "default_address env =
     (case nonempty (DEFAULT_EMAIL env) of Some a \<Rightarrow> a | None \<Rightarrow> ''admin@example.com'')"

definition getUserEmail :: "'db env \<Rightarrow> string \<Rightarrow> 'db world \<Rightarrow> (js_error + string) \<times> 'db world" where
  "getUserEmail env uid w =
     (case User_findById env (db w) uid of
        Inl e \<Rightarrow> (Inl e, w)
      | Inr found \<Rightarrow>
          (case user_address found of
             Some a \<Rightarrow> (Inr a, w)
           | None \<Rightarrow>
               (case redis_get (''user_email:'' @ uid) w of
                  (Inl e, w1) \<Rightarrow> (Inl e, w1)
                | (Inr cachedEmail, w1) \<Rightarrow>
                    (case nonempty cachedEmail of
                       Some a \<Rightarrow> (Inr a, w1)
                     | None \<Rightarrow> (Inr (default_address env), w1)))))"

text \<open>\<^verbatim>\<open>sendReportEmail\<close> (lines 354-410); its \<^verbatim>\<open>catch\<close> logs and throws the error again.\<close>

definition mailOptions ::
  "'db env \<Rightarrow> string \<Rightarrow> string \<Rightarrow> json \<Rightarrow> string \<Rightarrow> nat \<Rightarrow> mail" where
  "mailOptions env userEmail pdfBuffer statusData uid t =
     \<lparr>mail_from = (case nonempty (EMAIL_FROM env) of
                     Some a \<Rightarrow> a | None \<Rightarrow> ''noreply@booksapi.com''),
      mail_to = userEmail,
      subject = ''Books Bulk Insertion Report'',
      html_data = (statusData, uid),
      attachment_filename = ''books-report-'' @ uid @ ''-'' @ decimal t @ ''.pdf'',
      attachment_content = pdfBuffer\<rparr>"

definition sendReportEmail ::
  "'db env \<Rightarrow> string \<Rightarrow> string \<Rightarrow> json \<Rightarrow> string \<Rightarrow> 'db world \<Rightarrow> (js_error + string) \<times> 'db world" where
  "sendReportEmail env userEmail pdfBuffer statusData uid w =
     (case Date_now w of (t, w1) \<Rightarrow>
        (case sendMail env (mailOptions env userEmail pdfBuffer statusData uid t) of
           Inl e \<Rightarrow> (Inl e, w1)
         | Inr info \<Rightarrow>
             (Inr info,
              w1\<lparr>outbox := outbox w1 @ [mailOptions env userEmail pdfBuffer statusData uid t]\<rparr>)))"

text \<open>Lines 454-470: resolve the address, render, send, delete the status record.\<close>

definition deliver ::
  "'db env \<Rightarrow> string \<Rightarrow> string \<Rightarrow> json \<Rightarrow> 'db world \<Rightarrow> (js_error + unit) \<times> 'db world" where
  "deliver env key uid parsedStatus w =
     (case getUserEmail env uid w of
        (Inl e, w1) \<Rightarrow> (Inl e, w1)
      | (Inr userEmail, w1) \<Rightarrow>
          (case generatePDFReport env parsedStatus uid w1 of
             (Inl e, w2) \<Rightarrow> (Inl e, w2)
           | (Inr pdfBuffer, w2) \<Rightarrow>
               (case sendReportEmail env userEmail pdfBuffer parsedStatus uid w2 of
                  (Inl e, w3) \<Rightarrow> (Inl e, w3)
                | (Inr info, w3) \<Rightarrow> redis_del key w3)))"

text \<open>
  The \<^verbatim>\<open>try\<close> block for one status key (lines 436-470); \<open>Inr ()\<close> is reaching its end or a
  \<^verbatim>\<open>continue\<close>.
\<close>

definition report_entry ::
  "'db env \<Rightarrow> string \<Rightarrow> string \<Rightarrow> 'db world \<Rightarrow> (js_error + unit) \<times> 'db world" where
  "report_entry env key uid w =
     (case redis_get key w of
        (Inl e, w1) \<Rightarrow> (Inl e, w1)
      | (Inr None, w1) \<Rightarrow> (Inr (), w1)
      | (Inr (Some statusData), w1) \<Rightarrow>
          if statusData = [] then (Inr (), w1)
          else (case JSON_parse env statusData of
                  Inl e \<Rightarrow> (Inl e, w1)
                | Inr parsedStatus \<Rightarrow>
                    if parsedStatus = JNull then (Inl (null_read ''userId''), w1)
                    else if \<not> truthy (field parsedStatus ''userId'')
                            \<or> field parsedStatus ''totalBooks'' = None
                      then redis_del key w1
                    else deliver env key uid parsedStatus w1))"

text \<open>
  One iteration of the loop over the status keys (lines 432-489), with the \<^verbatim>\<open>catch\<close> block
  of lines 472-488: \<open>report_error_key\<close> is its \<^verbatim>\<open>errorKey\<close> and \<open>report_error_record\<close> its
  \<^verbatim>\<open>errorData\<close>. \<open>Inl\<close> is an error that leaves the loop: the handler's own write
  failed.
\<close>

definition report_error_key :: "string \<Rightarrow> nat \<Rightarrow> string" where
  "report_error_key uid t = ''report_error:'' @ uid @ '':'' @ decimal t"

definition report_error_record :: "string \<Rightarrow> string \<Rightarrow> js_error \<Rightarrow> string \<Rightarrow> json" where
  "report_error_record uid key e ts =
     JObject [(''userId'', JString uid),
              (''originalKey'', JString key),
              (''error'', JString (message e)),
              (''timestamp'', JString ts),
              (''retryCount'', JNumber 0)]"

definition report_key :: "'db env \<Rightarrow> string \<Rightarrow> 'db world \<Rightarrow> (js_error + unit) \<times> 'db world" where
  "report_key env key w =
     (case report_entry env key (key_user key) w of
        (Inr u, w1) \<Rightarrow> (Inr (), w1)
      | (Inl e, w1) \<Rightarrow>
          (case Date_now w1 of (t, w2) \<Rightarrow>
             (case Date_now w2 of (t1, w3) \<Rightarrow>
                redis_setEx (report_error_key (key_user key) t) 86400
                  (JSON_stringify env
                     (report_error_record (key_user key) key e (toISOString env t1))) w3)))"


section \<open>The book-list cache of the routes\<close>

definition getUserCacheKey :: "string \<Rightarrow> string \<Rightarrow> string" where
  "getUserCacheKey uid key = ''user:'' @ uid @ '':'' @ key"

definition invalidateUserCache :: "string \<Rightarrow> 'db world \<Rightarrow> (js_error + unit) \<times> 'db world" where
  "invalidateUserCache uid w = redis_del (getUserCacheKey uid ''books'') w"

section \<open>What the specification counts\<close>

text \<open>
  For the submissions of a batch, in their order: whether the submission has both title
  and author and persists without error. The document store is threaded through, since
  a submission is saved into the store its predecessors have left.
\<close>

fun persisted :: "'db env \<Rightarrow> string \<Rightarrow> 'db \<Rightarrow> json list \<Rightarrow> bool list" where
  "persisted env uid d [] = []"
| "persisted env uid d (b # bs) =
     (if truthy (field b ''title'') \<and> truthy (field b ''author'') then
        (case Book_save env d (new_Book uid b) of
           Inr d' \<Rightarrow> True # persisted env uid d' bs
         | Inl e \<Rightarrow> False # persisted env uid d bs)
      else False # persisted env uid d bs)"

text \<open>
  A status record the Report Job goes on to report: the key holds a non-empty text that
  parses to a value other than \<^verbatim>\<open>null\<close> with a truthy \<^verbatim>\<open>userId\<close> and a \<^verbatim>\<open>totalBooks\<close>.
\<close>

definition reportable :: "'db env \<Rightarrow> 'db world \<Rightarrow> string \<Rightarrow> string \<Rightarrow> nat option \<Rightarrow> json \<Rightarrow> bool" where
  "reportable env w key statusData ttl parsedStatus =
     (map_of (kv w) key = Some (statusData, ttl) \<and> statusData \<noteq> [] \<and>
      JSON_parse env statusData = Inr parsedStatus \<and> parsedStatus \<noteq> JNull \<and>
      truthy (field parsedStatus ''userId'') \<and> field parsedStatus ''totalBooks'' \<noteq> None)"

text \<open>
  The lookup of the address, the rendering or the sending throws \<open>e\<close>; and: all three
  succeed.
\<close>

definition report_fails :: "'db env \<Rightarrow> string \<Rightarrow> json \<Rightarrow> 'db world \<Rightarrow> js_error \<Rightarrow> bool" where
  "report_fails env uid parsedStatus w e =
     (case getUserEmail env uid w of
        (Inl e1, w1) \<Rightarrow> e1 = e
      | (Inr userEmail, w1) \<Rightarrow>
          (case generatePDFReport env parsedStatus uid w1 of
             (Inl e2, w2) \<Rightarrow> e2 = e
           | (Inr pdfBuffer, w2) \<Rightarrow>
               fst (sendReportEmail env userEmail pdfBuffer parsedStatus uid w2) = Inl e))"

definition report_sent :: "'db env \<Rightarrow> string \<Rightarrow> json \<Rightarrow> 'db world \<Rightarrow> bool" where
  "report_sent env uid parsedStatus w =
     (case getUserEmail env uid w of
        (Inl e1, w1) \<Rightarrow> False
      | (Inr userEmail, w1) \<Rightarrow>
          (case generatePDFReport env parsedStatus uid w1 of
             (Inl e2, w2) \<Rightarrow> False
           | (Inr pdfBuffer, w2) \<Rightarrow>
               (case fst (sendReportEmail env userEmail pdfBuffer parsedStatus uid w2) of
                  Inl e3 \<Rightarrow> False
                | Inr info \<Rightarrow> True)))"

text \<open>The user is absent or has no address: no document, no \<^verbatim>\<open>email\<close> property, or an empty one.\<close>

definition lacks_address :: "user option \<Rightarrow> bool" where
  "lacks_address found =
     (case found of None \<Rightarrow> True | Some u \<Rightarrow> email u = None \<or> email u = Some [])"

section \<open>A concrete environment for the examples\<close>

text \<open>
  Modelled from the spec: the Book model (\<^verbatim>\<open>./models/books\<close>) is not part of the sources.
  Section 3 of the specification: isbn, where present, is unique within the whole
  store, enforced by the document store. The store is the list of the saved documents.
\<close>

definition unique_isbn_save :: "js_object list \<Rightarrow> js_object \<Rightarrow> js_error + js_object list" where
  "unique_isbn_save d doc =
     (case map_of doc ''isbn'' of
        Some (Some v) \<Rightarrow>
          if v \<noteq> JNull \<and> Some (Some v) \<in> set (map (\<lambda>b. map_of b ''isbn'') d)
          then Inl (Error ''E11000 duplicate key error collection: books index: isbn_1'')
          else Inr (d @ [doc])
      | _ \<Rightarrow> Inr (d @ [doc]))"

text \<open>
  \<^verbatim>\<open>JSON.stringify\<close> for values whose numbers are integers and whose strings need no
  escape, which is all the examples store.
\<close>

fun commas :: "string list \<Rightarrow> string" where
  "commas [] = []"
| "commas [x] = x"
| "commas (x # y # zs) = x @ '','' @ commas (y # zs)"

definition quoted :: "string \<Rightarrow> string" where
  "quoted s = [CHR 0x22] @ s @ [CHR 0x22]"

fun sample_stringify :: "json \<Rightarrow> string" where
  "sample_stringify JNull = ''null''"
| "sample_stringify (JBool b) = (if b then ''true'' else ''false'')"
| "sample_stringify (JNumber r) =
     (if 0 \<le> r then decimal (nat \<lfloor>r\<rfloor>) else CHR ''-'' # decimal (nat \<lfloor>- r\<rfloor>))"
| "sample_stringify (JString s) = quoted s"
| "sample_stringify (JArray xs) = ''['' @ commas (map sample_stringify xs) @ '']''"
| "sample_stringify (JObject fs) =
     ''{'' @ commas (map (\<lambda>kv. quoted (fst kv) @ '':'' @ sample_stringify (snd kv)) fs) @ ''}''"

text \<open>\<^verbatim>\<open>toISOString\<close> for the first day of the epoch, where the examples run.\<close>

definition pad :: "nat \<Rightarrow> string \<Rightarrow> string" where
  "pad k s = replicate (k - length s) (CHR ''0'') @ s"

definition sample_toISOString :: "nat \<Rightarrow> string" where
  "sample_toISOString t =
     ''1970-01-01T'' @ pad 2 (decimal (t div 3600000 mod 24)) @ '':'' @
     pad 2 (decimal (t div 60000 mod 60)) @ '':'' @ pad 2 (decimal (t div 1000 mod 60)) @
     ''.'' @ pad 3 (decimal (t mod 1000)) @ ''Z''"

text \<open>Exact arithmetic in place of the rounding to binary, and the decimals of the exact value.\<close>

definition sample_toFixed :: "rat \<Rightarrow> nat \<Rightarrow> string" where
  "sample_toFixed q digits =
     (let n = nat \<lfloor>\<bar>q\<bar> * 10 ^ digits + 1 / 2\<rfloor> in
      (if q < 0 then ''-'' else []) @ decimal (n div 10 ^ digits) @
      (if digits = 0 then [] else ''.'' @ pad digits (decimal (n mod 10 ^ digits))))"

text \<open>The texts the examples keep in Redis, and their values.\<close>

definition three_books :: string where
  \<open>three_books =
     ''[{"title":"A","author":"X"},{"title":"","author":"Y"},{"title":"C","author":"Z","isbn":"same"}]''\<close>

definition three_books_value :: "json list" where
  "three_books_value =
     [JObject [(''title'', JString ''A''), (''author'', JString ''X'')],
      JObject [(''title'', JString []), (''author'', JString ''Y'')],
      JObject [(''title'', JString ''C''), (''author'', JString ''Z''), (''isbn'', JString ''same'')]]"

definition status_text :: string where
  \<open>status_text = ''{"userId":"u1","totalBooks":1,"successCount":1,"failureCount":0,"failures":[]}''\<close>

definition status_value :: json where
  "status_value = JObject [(''userId'', JString ''u1''), (''totalBooks'', JNumber 1),
                      (''successCount'', JNumber 1), (''failureCount'', JNumber 0),
                      (''failures'', JArray [])]"

definition sample_parse :: "string \<Rightarrow> js_error + json" where
  \<open>sample_parse s =
     (if s = three_books then
        Inr (JArray three_books_value)
      else if s = ''[{"title":"A","author":"X"}]'' then
        Inr (JArray [JObject [(''title'', JString ''A''), (''author'', JString ''X'')]])
      else if s = ''[{"author":"Y"}]'' then
        Inr (JArray [JObject [(''author'', JString ''Y'')]])
      else if s = ''[null]'' then Inr (JArray [JNull])
      else if s = ''[]'' then Inr (JArray [])
      else if s = ''7'' then Inr (JNumber 7)
      else if s = ''{"userId":"u1"}'' then Inr (JObject [(''userId'', JString ''u1'')])
      else if s = status_text then Inr status_value
      else Inl (SyntaxError ''Unexpected token in JSON''))\<close>

definition sample_env :: "js_object list env" where
  "sample_env =
     \<lparr>JSON_parse = sample_parse,
      JSON_stringify = sample_stringify,
      toISOString = sample_toISOString,
      fl = Finite,
      Number_toFixed = sample_toFixed,
      Book_save = unique_isbn_save,
      User_findById = (\<lambda>d uid. Inr (map_of [(''u1'', \<lparr>email = Some ''reader@example.com''\<rparr>),
                                              (''u2'', \<lparr>email = None\<rparr>)] uid)),
      pdfkit = (\<lambda>statusData uid t1 t2. Inr (''%PDF-1.3 report '' @ decimal t2)),
      sendMail = (\<lambda>m. Inr (''<'' @ attachment_filename m @ ''@booksapi.com>'')),
      DEFAULT_EMAIL = None,
      EMAIL_FROM = None\<rparr>"

text \<open>A store that already holds a book with the isbn \<^verbatim>\<open>same\<close>, and a healthy Redis.\<close>

definition sample_world :: "(string \<times> string \<times> nat option) list \<Rightarrow> js_object list world" where
  "sample_world entries =
     \<lparr>kv = entries, faults = [],
      db = [[(''title'', Some (JString ''Old'')), (''author'', Some (JString ''W'')),
             (''isbn'', Some (JString ''same'')), (''userId'', Some (JString ''u9''))]],
      now = 1000, ticks = [1, 1, 1, 1, 1, 1, 1, 1], outbox = []\<rparr>"

text \<open>The same environment with a mail transport that refuses every message, and with a
  user lookup that throws.\<close>

definition failing_mail_env :: "js_object list env" where
  "failing_mail_env = sample_env\<lparr>sendMail := (\<lambda>m. Inl (Error ''Connection timeout''))\<rparr>"

definition failing_lookup_env :: "js_object list env" where
  "failing_lookup_env =
     sample_env\<lparr>User_findById := (\<lambda>d uid. Inl (Error ''Cast to ObjectId failed''))\<rparr>"

section \<open>Lemmas on the Ingestion Job\<close>

lemma length_persisted: "length (persisted env uid d bs) = length bs"
  by (induction bs arbitrary: d) (auto split: sum.splits)

lemma upt_0_Suc: "[0..<Suc n] = 0 # map Suc [0..<n]"
  by (simp add: upt_conv_Cons map_Suc_upt del: upt_Suc)

lemma failed_positions_Cons:
  "map (\<lambda>j. i + j) (filter (\<lambda>j. \<not> (v # vs) ! j) [0..<Suc (length vs)]) =
     (if v then [] else [i]) @ map (\<lambda>j. Suc i + j) (filter (\<lambda>j. \<not> vs ! j) [0..<length vs])"
  by (simp add: upt_0_Suc filter_map comp_def del: upt_Suc)

lemma process_books_tally:
  assumes "JNull \<notin> set bs"
  shows "\<exists>st' d'. process_books env uid bs i st d = (Inr st', d')
           \<and> successCount st' = successCount st + length (filter (\<lambda>v. v) (persisted env uid d bs))
           \<and> failureCount st' = failureCount st + length (filter Not (persisted env uid d bs))
           \<and> map index (failures st') = map index (failures st) @
                map (\<lambda>j. i + j) (filter (\<lambda>j. \<not> persisted env uid d bs ! j) [0..<length bs])
           \<and> userId st' = userId st \<and> totalBooks st' = totalBooks st
           \<and> timestamp st' = timestamp st"
  using assms
proof (induction bs arbitrary: i st d)
  case Nil
  then show ?case by simp
next
  case (Cons b bs)
  have nn: "b \<noteq> JNull" and rest: "JNull \<notin> set bs" using Cons.prems by auto
  show ?case
  proof (cases "insertBook env uid b d")
    case (Inr d1)
    then have ok: "truthy (field b ''title'')" "truthy (field b ''author'')"
      "Book_save env d (new_Book uid b) = Inr d1"
      using nn by (auto simp: insertBook_def split: if_splits)
    from Cons.IH[OF rest, of "Suc i" "st\<lparr>successCount := Suc (successCount st)\<rparr>" d1]
    obtain st' d' where
      "process_books env uid bs (Suc i) (st\<lparr>successCount := Suc (successCount st)\<rparr>) d1 = (Inr st', d')"
      "successCount st' = Suc (successCount st) + length (filter (\<lambda>v. v) (persisted env uid d1 bs))"
      "failureCount st' = failureCount st + length (filter Not (persisted env uid d1 bs))"
      "map index (failures st') = map index (failures st) @
         map (\<lambda>j. Suc i + j) (filter (\<lambda>j. \<not> persisted env uid d1 bs ! j) [0..<length bs])"
      "userId st' = userId st" "totalBooks st' = totalBooks st" "timestamp st' = timestamp st"
      by auto
    then show ?thesis
      using Inr ok failed_positions_Cons[of i True "persisted env uid d1 bs"]
      by (simp add: length_persisted del: upt_Suc)
  next
    case (Inl e)
    then have v: "persisted env uid d (b # bs) = False # persisted env uid d bs"
      using nn by (auto simp: insertBook_def split: if_splits sum.splits)
    let ?st1 = "st\<lparr>failureCount := Suc (failureCount st),
                     failures := failures st @
                       [\<lparr>index = i, title = or_else (field b ''title'') (JString ''Unknown''),
                         error = message e\<rparr>]\<rparr>"
    from Cons.IH[OF rest, of "Suc i" ?st1 d]
    obtain st' d' where
      "process_books env uid bs (Suc i) ?st1 d = (Inr st', d')"
      "successCount st' = successCount st + length (filter (\<lambda>v. v) (persisted env uid d bs))"
      "failureCount st' = Suc (failureCount st) + length (filter Not (persisted env uid d bs))"
      "map index (failures st') = map index (failures st) @ [i] @
         map (\<lambda>j. Suc i + j) (filter (\<lambda>j. \<not> persisted env uid d bs ! j) [0..<length bs])"
      "userId st' = userId st" "totalBooks st' = totalBooks st" "timestamp st' = timestamp st"
      by auto
    then show ?thesis
      using Inl nn v failed_positions_Cons[of i False "persisted env uid d bs"]
      by (simp add: length_persisted del: upt_Suc persisted.simps)
  qed
qed





subsection \<open>Redis and the clock while Redis accepts every command\<close>

lemma healthy_accepts: "faults w = [] \<Longrightarrow> \<not> rejected w \<and> issued w = w"
  by (simp add: rejected_def issued_def)

lemma redis_get_ok:
  "faults w = [] \<Longrightarrow> redis_get k w = (Inr (map_option fst (map_of (kv w) k)), w)"
  by (simp add: redis_get_def healthy_accepts)

lemma redis_setEx_ok:
  "faults w = [] \<Longrightarrow> redis_setEx k ttl v w = (Inr (), w\<lparr>kv := AList.update k (v, Some ttl) (kv w)\<rparr>)"
  by (simp add: redis_setEx_def healthy_accepts)

lemma redis_del_ok:
  "faults w = [] \<Longrightarrow> redis_del k w = (Inr (), w\<lparr>kv := AList.delete k (kv w)\<rparr>)"
  by (simp add: redis_del_def healthy_accepts)

lemma Date_now_frame:
  "kv (snd (Date_now w)) = kv w" "faults (snd (Date_now w)) = faults w"
  "db (snd (Date_now w)) = db w" "fst (Date_now w) = now w"
  by (simp_all add: Date_now_def split: list.splits)

lemma Date_now_db:
  "fst (Date_now (w\<lparr>db := d\<rparr>)) = fst (Date_now w)"
  "kv (snd (Date_now (w\<lparr>db := d\<rparr>))) = kv w"
  "faults (snd (Date_now (w\<lparr>db := d\<rparr>))) = faults w"
  "db (snd (Date_now (w\<lparr>db := d\<rparr>))) = d"
  by (simp_all add: Date_now_def split: list.splits)

lemma process_batch_ok:
  assumes "faults w = []" and "JNull \<notin> set books"
  shows "\<exists>st w'. process_batch env key uid books w = (Inr (), w')
          \<and> fst (process_books env uid books 0
                \<lparr>userId = uid, totalBooks = length books, successCount = 0, failureCount = 0,
                 timestamp = toISOString env (now w), failures = []\<rparr> (db w)) = Inr st
          \<and> kv w' = AList.delete key
                (AList.update (''bulk_status:'' @ uid @ '':'' @ decimal (fst (Date_now (snd (Date_now w)))))
                   (JSON_stringify env (status_json st), Some 86400) (kv w))
          \<and> db w' = snd (process_books env uid books 0
                \<lparr>userId = uid, totalBooks = length books, successCount = 0, failureCount = 0,
                 timestamp = toISOString env (now w), failures = []\<rparr> (db w))"
proof -
  let ?st0 = "\<lparr>userId = uid, totalBooks = length books, successCount = 0, failureCount = 0,
                 timestamp = toISOString env (now w), failures = []\<rparr>"
  obtain st d where pb: "process_books env uid books 0 ?st0 (db w) = (Inr st, d)"
    using process_books_tally[OF assms(2), of env uid 0 ?st0 "db w"] by blast
  obtain t0 w1 where d1: "Date_now w = (t0, w1)" by (cases "Date_now w")
  then have w1: "t0 = now w" "kv w1 = kv w" "faults w1 = []" "db w1 = db w"
    using Date_now_frame[of w] assms(1) by auto
  obtain t w2 where d2: "Date_now (w1\<lparr>db := d\<rparr>) = (t, w2)" by (cases "Date_now (w1\<lparr>db := d\<rparr>)")
  then have w2: "t = fst (Date_now w1)" "kv w2 = kv w" "faults w2 = []" "db w2 = d"
    using Date_now_db[where w=w1 and d=d] w1 by auto
  have t: "t = fst (Date_now (snd (Date_now w)))" using w2(1) d1 by simp
  show ?thesis
    using pb d1 d2 w1 w2 t
    by (simp add: process_batch_def redis_setEx_ok redis_del_ok)
qed


lemma error_key_fresh: "starts_with ''bulk_books:'' key \<Longrightarrow> ''bulk_error:'' @ rest \<noteq> key"
  by (auto simp: starts_with_def)

lemma process_entry_batch:
  assumes "faults w = []" and "map_of (kv w) key = Some (booksData, ttl)" and "booksData \<noteq> []"
    and "JSON_parse env booksData = Inr (JArray books)" and "books \<noteq> []"
  shows "process_entry env key uid w = process_batch env key uid books w"
proof -
  obtain b bs where "books = b # bs" using assms(5) by (cases books) auto
  then show ?thesis
    using assms by (simp add: process_entry_def redis_get_ok)
qed

lemma process_key_batch:
  assumes "faults w = []" and "map_of (kv w) key = Some (booksData, ttl)" and "booksData \<noteq> []"
    and "JSON_parse env booksData = Inr (JArray books)" and "books \<noteq> []"
    and "JNull \<notin> set books"
  shows "\<exists>st w'. process_key env key w = (Inr (), w')
          \<and> fst (process_books env (key_user key) books 0
                \<lparr>userId = key_user key, totalBooks = length books, successCount = 0,
                 failureCount = 0, timestamp = toISOString env (now w), failures = []\<rparr> (db w)) = Inr st
          \<and> kv w' = AList.delete key
                (AList.update (''bulk_status:'' @ key_user key @ '':'' @
                                 decimal (fst (Date_now (snd (Date_now w)))))
                   (JSON_stringify env (status_json st), Some 86400) (kv w))
          \<and> db w' = snd (process_books env (key_user key) books 0
                \<lparr>userId = key_user key, totalBooks = length books, successCount = 0,
                 failureCount = 0, timestamp = toISOString env (now w), failures = []\<rparr> (db w))"
proof -
  from process_batch_ok[OF assms(1) assms(6), of env key "key_user key"]
  obtain st w' where
    "process_batch env key (key_user key) books w = (Inr (), w')"
    "fst (process_books env (key_user key) books 0
                \<lparr>userId = key_user key, totalBooks = length books, successCount = 0,
                 failureCount = 0, timestamp = toISOString env (now w), failures = []\<rparr> (db w)) = Inr st"
    "kv w' = AList.delete key
                (AList.update (''bulk_status:'' @ key_user key @ '':'' @
                                 decimal (fst (Date_now (snd (Date_now w)))))
                   (JSON_stringify env (status_json st), Some 86400) (kv w))"
    "db w' = snd (process_books env (key_user key) books 0
                \<lparr>userId = key_user key, totalBooks = length books, successCount = 0,
                 failureCount = 0, timestamp = toISOString env (now w), failures = []\<rparr> (db w))"
    by blast
  then show ?thesis
    using process_entry_batch[OF assms(1-5), of "key_user key"]
    by (simp add: process_key_def)
qed



lemma process_key_invalid:
  assumes "faults w = []" and "map_of (kv w) key = Some (booksData, ttl)" and "booksData \<noteq> []"
    and "JSON_parse env booksData = Inr v" and "v = JArray [] \<or> (\<forall>xs. v \<noteq> JArray xs)"
  shows "process_key env key w = (Inr (), w\<lparr>kv := AList.delete key (kv w)\<rparr>)"
proof -
  have "process_entry env key (key_user key) w = redis_del key w"
    using assms
    by (cases v) (auto simp: process_entry_def redis_get_ok)
  then show ?thesis
    using assms(1) by (simp add: process_key_def redis_del_ok)
qed

lemma process_key_unparsed:
  assumes "faults w = []" and "map_of (kv w) key = Some (booksData, ttl)" and "booksData \<noteq> []"
    and "JSON_parse env booksData = Inl e"
  shows "process_key env key w =
           (Inr (), (snd (Date_now (snd (Date_now w))))
              \<lparr>kv := AList.update
                 (''bulk_error:'' @ key_user key @ '':'' @ decimal (fst (Date_now (snd (Date_now w)))))
                 (JSON_stringify env
                     (JObject [(''userId'', JString (key_user key)),
                               (''error'', JString (message e)),
                               (''timestamp'', JString (toISOString env (now w))),
                               (''status'', JString ''failed'')]), Some 86400) (kv w)\<rparr>)"
proof -
  have pe: "process_entry env key (key_user key) w = (Inl e, w)"
    using assms by (simp add: process_entry_def redis_get_ok)
  obtain t0 w2 where d1: "Date_now w = (t0, w2)" by (cases "Date_now w")
  obtain t w3 where d2: "Date_now w2 = (t, w3)" by (cases "Date_now w2")
  have f: "t0 = now w" "faults w3 = []" "kv w3 = kv w"
    using d1 d2 Date_now_frame[of w] Date_now_frame[of w2] assms(1) by auto
  show ?thesis
    using pe d1 d2 f by (simp add: process_key_def redis_setEx_ok)
qed

lemma process_books_null:
  "JNull \<in> set bs \<Longrightarrow> \<exists>d'. process_books env uid bs i st d = (Inl (null_read ''title''), d')"
proof (induction bs arbitrary: i st d)
  case Nil
  then show ?case by simp
next
  case (Cons b bs)
  show ?case
  proof (cases "b = JNull")
    case True
    then show ?thesis by (simp add: insertBook_def)
  next
    case False
    with Cons.prems have "JNull \<in> set bs" by simp
    from Cons.IH[OF this] False show ?thesis
      by (auto split: sum.splits)
  qed
qed


subsection \<open>The example batch of the specification\<close>

lemma key_user_u1: "key_user ''bulk_books:u1'' = ''u1''"
  by (simp add: key_user_def)


lemma sample_world_sel:
  "kv (sample_world es) = es" "faults (sample_world es) = []" "now (sample_world es) = 1000"
  by (simp_all add: sample_world_def)

lemma sample_clock:
  "decimal (fst (Date_now (snd (Date_now (sample_world es))))) = ''1001''"
  by (simp add: sample_world_def Date_now_def decimal.simps digit_char_def)

lemma processBulkBooks_single:
  assumes "faults w = []" and "filter (starts_with ''bulk_books:'') (map fst (kv w)) = [key]"
  shows "processBulkBooks env w = snd (process_key env key w)"
  using assms
  by (simp add: processBulkBooks_def redis_keys_def healthy_accepts split: prod.splits sum.splits)

lemma starts_with_iff: "starts_with p k \<longleftrightarrow> (\<exists>r. k = p @ r)"
  unfolding starts_with_def by (metis append_eq_conv_conj append_take_drop_id)

lemma status_prefix_fresh:
  "starts_with ''bulk_status:'' k \<Longrightarrow> ''bulk_error:'' @ rest \<noteq> k"
  by (auto simp: starts_with_iff)

lemma status_prefix_pending:
  "starts_with ''bulk_status:'' k \<Longrightarrow> starts_with ''bulk_books:'' key \<Longrightarrow> k \<noteq> key"
  by (auto simp: starts_with_iff)

lemma process_key_failure_keeps:
  assumes "process_entry env key (key_user key) w = (Inl e, w1)" and "kv w1 = kv w"
    and "starts_with ''bulk_books:'' key"
  shows "map_of (kv (snd (process_key env key w))) key = map_of (kv w) key"
proof -
  obtain t0 w2 where d1: "Date_now w1 = (t0, w2)" by (cases "Date_now w1")
  obtain t w3 where d2: "Date_now w2 = (t, w3)" by (cases "Date_now w2")
  have f: "kv w3 = kv w"
    using d1 d2 Date_now_frame(1)[of w1] Date_now_frame(1)[of w2] assms(2) by auto
  let ?ek = "''bulk_error:'' @ key_user key @ '':'' @ decimal t"
  have ne: "?ek \<noteq> key" by (rule error_key_fresh[OF assms(3)])
  have upd: "map_of (AList.update ?ek (v, Some 86400) (kv w)) key = map_of (kv w) key" for v
    using ne by (simp add: update_conv')
  have "map_of (kv (snd (redis_setEx ?ek 86400 v w3))) key = map_of (kv w) key" for v
  proof (cases "rejected w3")
    case True
    then show ?thesis
      using f by (simp add: redis_setEx_def issued_def split: list.splits)
  next
    case False
    then show ?thesis
      using f upd[of v] by (simp add: redis_setEx_def issued_def split: list.splits)
  qed
  then show ?thesis
    using assms(1) d1 d2 by (simp add: process_key_def)
qed

lemma process_entry_null:
  assumes "faults w = []" and "map_of (kv w) key = Some (booksData, ttl)" and "booksData \<noteq> []"
    and "JSON_parse env booksData = Inr (JArray books)" and "JNull \<in> set books"
  shows "\<exists>w1. process_entry env key uid w = (Inl (null_read ''title''), w1) \<and> kv w1 = kv w"
proof -
  have ne: "books \<noteq> []" using assms(5) by auto
  obtain t0 w1 where d1: "Date_now w = (t0, w1)" by (cases "Date_now w")
  then have k: "kv w1 = kv w" using Date_now_frame(1)[of w] by simp
  obtain d' where "process_books env uid books 0
         \<lparr>userId = uid, totalBooks = length books, successCount = 0, failureCount = 0,
          timestamp = toISOString env t0, failures = []\<rparr> (db w1) = (Inl (null_read ''title''), d')"
    using process_books_null[OF assms(5), where env=env and uid=uid and i=0 and d="db w1"]
    by blast
  then show ?thesis
    using process_entry_batch[OF assms(1-4) ne, of uid] d1 k
    by (simp add: process_batch_def)
qed

lemma sample_parse_facts:
  "JSON_parse sample_env ''[]'' = Inr (JArray [])"
  "JSON_parse sample_env ''7'' = Inr (JNumber 7)"
  "JSON_parse sample_env ''{oops'' = Inl (SyntaxError ''Unexpected token in JSON'')"
  "JSON_parse sample_env ''[null]'' = Inr (JArray [JNull])"
  by (simp_all add: sample_env_def sample_parse_def three_books_def status_text_def)

lemma pending_u1: "starts_with ''bulk_books:'' ''bulk_books:u1''"
  by (simp add: starts_with_def)

lemma parse_one_book:
  \<open>JSON_parse sample_env ''[{"title":"A","author":"X"}]'' =
     Inr (JArray [JObject [(''title'', JString ''A''), (''author'', JString ''X'')]])\<close>
  by (simp add: sample_env_def sample_parse_def three_books_def status_text_def)

text \<open>What every route that changes a user's books does after the change.\<close>

lemma invalidateUserCache_clears:
  "faults w = [] \<Longrightarrow>
     map_of (kv (snd (invalidateUserCache uid w))) (getUserCacheKey uid ''books'') = None"
  by (simp add: invalidateUserCache_def redis_del_ok delete_conv')


lemma issued_frame:
  "kv (issued w) = kv w" "db (issued w) = db w" "now (issued w) = now w"
  "ticks (issued w) = ticks w" "outbox (issued w) = outbox w"
  by (simp_all add: issued_def split: list.splits)

lemma Date_now_rejected: "rejected (snd (Date_now w)) = rejected w"
  by (simp add: rejected_def Date_now_frame)





text \<open>
  A \<^verbatim>\<open>null\<close> submission: reading \<^verbatim>\<open>book.title\<close> throws inside the \<^verbatim>\<open>try\<close> block and again
  inside the \<^verbatim>\<open>catch\<close> block of the submission, so the whole batch ends in the handler of
  lines 123-138. This is why the claims below speak of batches without \<^verbatim>\<open>null\<close>.
\<close>

lemma null_submission_keeps_batch:
  "JSON_parse sample_env ''[null]'' = Inr (JArray [JNull])
   \<and> map_of (kv (processBulkBooks sample_env (sample_world [(''bulk_books:u1'', (''[null]'', None))])))
        ''bulk_books:u1'' = Some (''[null]'', None)"
proof -
  let ?w = "sample_world [(''bulk_books:u1'', (''[null]'', None))]"
  have p: "JSON_parse sample_env ''[null]'' = Inr (JArray [JNull])"
    by (simp add: sample_env_def sample_parse_def three_books_def status_text_def)
  have one: "processBulkBooks sample_env ?w = snd (process_key sample_env ''bulk_books:u1'' ?w)"
    by (rule processBulkBooks_single) (simp_all add: sample_world_sel starts_with_def)
  have m: "map_of (kv ?w) ''bulk_books:u1'' = Some (''[null]'', None)"
    by (simp add: sample_world_sel)
  from process_entry_null[OF sample_world_sel(2) m _ p, of "key_user ''bulk_books:u1''"]
  obtain w1 where "process_entry sample_env ''bulk_books:u1'' (key_user ''bulk_books:u1'') ?w
                     = (Inl (null_read ''title''), w1)" "kv w1 = kv ?w"
    by auto
  moreover have "starts_with ''bulk_books:'' ''bulk_books:u1''"
    by (simp add: starts_with_def)
  ultimately
  have "map_of (kv (snd (process_key sample_env ''bulk_books:u1'' ?w))) ''bulk_books:u1''
          = map_of (kv ?w) ''bulk_books:u1''"
    by (rule process_key_failure_keeps)
  with m
  have "map_of (kv (snd (process_key sample_env ''bulk_books:u1'' ?w))) ''bulk_books:u1''
          = Some (''[null]'', None)"
    by simp
  with p one show ?thesis by simp
qed

section \<open>Lemmas on the Report Job\<close>

lemma digit_value_digit_char: "d < 10 \<Longrightarrow> digit_value (digit_char d) = d"
proof -
  assume "d < 10"
  then have "d = 0 \<or> d = 1 \<or> d = 2 \<or> d = 3 \<or> d = 4 \<or> d = 5 \<or> d = 6 \<or> d = 7
    \<or> d = 8 \<or> d = 9" by arith
  then show ?thesis
    by (elim disjE) (simp_all add: digit_value_def digit_char_def)
qed

lemma read_decimal_decimal: "read_decimal (decimal n) = n"
proof (induction n rule: decimal.induct)
  case (1 n)
  show ?case
  proof (cases "n < 10")
    case True
    then show ?thesis
      by (simp add: decimal.simps[of n] read_decimal_def digit_value_digit_char)
  next
    case False
    with 1 have "read_decimal (decimal (n div 10)) = n div 10" by simp
    with False show ?thesis
      by (simp add: decimal.simps[of n] read_decimal_def digit_value_digit_char)
  qed
qed

lemma decimal_inj: "decimal m = decimal n \<Longrightarrow> m = n"
  by (metis read_decimal_decimal)

lemma report_error_key_inj: "report_error_key uid t = report_error_key uid t' \<Longrightarrow> t = t'"
  by (simp add: report_error_key_def decimal_inj)

lemma report_error_key_not_status:
  "starts_with ''bulk_status:'' key \<Longrightarrow> report_error_key uid t \<noteq> key"
  by (auto simp: starts_with_iff report_error_key_def)

lemma Date_now_mono: "now w \<le> now (snd (Date_now w))"
  by (simp add: Date_now_def split: list.splits)

lemma getUserEmail_healthy:
  "faults w = [] \<Longrightarrow> snd (getUserEmail env uid w) = w"
  by (simp add: getUserEmail_def redis_get_ok split: sum.splits option.splits)

lemma generatePDFReport_frame:
  assumes "generatePDFReport env p uid w = (r, w1)"
  shows "kv w1 = kv w" "faults w1 = faults w" "db w1 = db w" "now w \<le> now w1"
proof -
  obtain t1 wa where d1: "Date_now w = (t1, wa)" by (cases "Date_now w")
  obtain t2 wb where d2: "Date_now wa = (t2, wb)" by (cases "Date_now wa")
  have "w1 = wb" using assms d1 d2 by (simp add: generatePDFReport_def)
  moreover have "kv wb = kv w" "faults wb = faults w" "db wb = db w" "now w \<le> now wb"
    using d1 d2 Date_now_frame[of w] Date_now_frame[of wa] Date_now_mono[of w] Date_now_mono[of wa]
    by auto
  ultimately show "kv w1 = kv w" "faults w1 = faults w" "db w1 = db w" "now w \<le> now w1"
    by simp_all
qed

lemma sendReportEmail_frame:
  assumes "sendReportEmail env a pdf p uid w = (r, w1)"
  shows "kv w1 = kv w" "faults w1 = faults w" "db w1 = db w" "now w \<le> now w1"
proof -
  obtain t wa where d1: "Date_now w = (t, wa)" by (cases "Date_now w")
  have "w1 = wa \<or> (\<exists>m. w1 = wa\<lparr>outbox := outbox wa @ [m]\<rparr>)"
    using assms d1 by (auto simp: sendReportEmail_def split: sum.splits)
  moreover have "kv wa = kv w" "faults wa = faults w" "db wa = db w" "now w \<le> now wa"
    using d1 Date_now_frame[of w] Date_now_mono[of w] by auto
  ultimately show "kv w1 = kv w" "faults w1 = faults w" "db w1 = db w" "now w \<le> now w1"
    by auto
qed

lemma deliver_cases:
  assumes "faults w = []"
  obtains
    (lookup) e where "getUserEmail env uid w = (Inl e, w)" "deliver env key uid p w = (Inl e, w)"
  | (render) a e w2 where "getUserEmail env uid w = (Inr a, w)"
      "generatePDFReport env p uid w = (Inl e, w2)" "deliver env key uid p w = (Inl e, w2)"
  | (send) a pdf w2 e w3 where "getUserEmail env uid w = (Inr a, w)"
      "generatePDFReport env p uid w = (Inr pdf, w2)"
      "sendReportEmail env a pdf p uid w2 = (Inl e, w3)" "deliver env key uid p w = (Inl e, w3)"
  | (sent) a pdf w2 info w3 where "getUserEmail env uid w = (Inr a, w)"
      "generatePDFReport env p uid w = (Inr pdf, w2)"
      "sendReportEmail env a pdf p uid w2 = (Inr info, w3)"
      "deliver env key uid p w = (Inr (), w3\<lparr>kv := AList.delete key (kv w)\<rparr>)"
proof -
  obtain r1 w1 where g: "getUserEmail env uid w = (r1, w1)" by (cases "getUserEmail env uid w")
  have w1: "w1 = w" using getUserEmail_healthy[OF assms, of env uid] g by simp
  show ?thesis
  proof (cases r1)
    case (Inl e)
    then show ?thesis using g w1 lookup by (simp add: deliver_def)
  next
    case (Inr a)
    obtain r2 w2 where gp: "generatePDFReport env p uid w = (r2, w2)"
      by (cases "generatePDFReport env p uid w")
    show ?thesis
    proof (cases r2)
      case (Inl e)
      then show ?thesis using g w1 Inr gp render by (simp add: deliver_def)
    next
      case pdf: (Inr pdf)
      obtain r3 w3 where sd: "sendReportEmail env a pdf p uid w2 = (r3, w3)"
        by (cases "sendReportEmail env a pdf p uid w2")
      show ?thesis
      proof (cases r3)
        case (Inl e)
        then show ?thesis using g w1 Inr gp pdf sd send by (simp add: deliver_def)
      next
        case info: (Inr info)
        have "faults w3 = []" "kv w3 = kv w"
          using generatePDFReport_frame[OF gp] sendReportEmail_frame[OF sd] assms by auto
        then have "redis_del key w3 = (Inr (), w3\<lparr>kv := AList.delete key (kv w)\<rparr>)"
          by (simp add: redis_del_ok)
        then show ?thesis using g w1 Inr gp pdf sd info sent by (simp add: deliver_def)
      qed
    qed
  qed
qed

lemma deliver_failure:
  assumes "faults w = []" and "report_fails env uid p w e"
  shows "\<exists>w1. deliver env key uid p w = (Inl e, w1) \<and> kv w1 = kv w \<and> faults w1 = []
           \<and> now w \<le> now w1"
proof (rule deliver_cases[OF assms(1), where env=env and uid=uid and p=p and key=key], goal_cases)
  case (1 e')
  then show ?case using assms by (simp add: report_fails_def)
next
  case (2 a e' w2)
  then show ?case
    using assms generatePDFReport_frame[OF 2(2)] by (simp add: report_fails_def)
next
  case (3 a pdf w2 e' w3)
  then show ?case
    using assms generatePDFReport_frame[OF 3(2)] sendReportEmail_frame[OF 3(3)]
    by (simp add: report_fails_def)
next
  case (4 a pdf w2 info w3)
  then show ?case using assms by (simp add: report_fails_def)
qed

lemma deliver_sent:
  assumes "faults w = []" and "report_sent env uid p w"
  shows "\<exists>w1. deliver env key uid p w = (Inr (), w1) \<and> kv w1 = AList.delete key (kv w)"
proof (rule deliver_cases[OF assms(1), where env=env and uid=uid and p=p and key=key], goal_cases)
  case (1 e')
  then show ?case using assms by (simp add: report_sent_def)
next
  case (2 a e' w2)
  then show ?case using assms by (simp add: report_sent_def)
next
  case (3 a pdf w2 e' w3)
  then show ?case using assms by (simp add: report_sent_def)
next
  case (4 a pdf w2 info w3)
  then show ?case by simp
qed

lemma report_entry_reportable:
  assumes "faults w = []" and "reportable env w key statusData ttl p"
  shows "report_entry env key uid w = deliver env key uid p w"
  using assms
  by (auto simp: report_entry_def reportable_def redis_get_ok)

lemma report_key_sent:
  assumes "faults w = []" and "reportable env w key statusData ttl p"
    and "report_sent env (key_user key) p w"
  shows "kv (snd (report_key env key w)) = AList.delete key (kv w)"
proof -
  from deliver_sent[OF assms(1,3), of key]
  obtain w1 where "deliver env key (key_user key) p w = (Inr (), w1)"
    "kv w1 = AList.delete key (kv w)" by blast
  then show ?thesis
    using report_entry_reportable[OF assms(1,2), of "key_user key"]
    by (simp add: report_key_def)
qed

lemma report_key_failed:
  assumes "faults w = []" and "reportable env w key statusData ttl p"
    and "report_fails env (key_user key) p w e"
  shows "\<exists>t ts w'. report_key env key w = (Inr (), w') \<and> now w \<le> t \<and> t \<le> now w' \<and> faults w' = []
           \<and> kv w' = AList.update (report_error_key (key_user key) t)
                 (JSON_stringify env (report_error_record (key_user key) key e ts), Some 86400) (kv w)"
proof -
  from deliver_failure[OF assms(1,3), of key]
  obtain w1 where w1: "deliver env key (key_user key) p w = (Inl e, w1)"
    "kv w1 = kv w" "faults w1 = []" "now w \<le> now w1" by blast
  obtain t w2 where d1: "Date_now w1 = (t, w2)" by (cases "Date_now w1")
  obtain t1 w3 where d2: "Date_now w2 = (t1, w3)" by (cases "Date_now w2")
  have f: "t = now w1" "kv w3 = kv w" "faults w3 = []" "now w1 \<le> now w3"
    using d1 d2 Date_now_frame[of w1] Date_now_frame[of w2] Date_now_mono[of w1] Date_now_mono[of w2] w1
    by auto
  have "report_key env key w =
          (Inr (), w3\<lparr>kv := AList.update (report_error_key (key_user key) t)
                 (JSON_stringify env (report_error_record (key_user key) key e (toISOString env t1)),
                  Some 86400) (kv w)\<rparr>)"
    using report_entry_reportable[OF assms(1,2), of "key_user key"] w1 d1 d2 f
    by (simp add: report_key_def redis_setEx_ok)
  then show ?thesis using f w1 by auto
qed

lemma reportable_kv:
  "kv w2 = kv w \<Longrightarrow> reportable env w2 key statusData ttl p = reportable env w key statusData ttl p"
  by (simp add: reportable_def)

lemma report_key_failed_keeps:
  assumes "starts_with ''bulk_status:'' key" and "reportable env w key statusData ttl p"
    and "kv w' = AList.update (report_error_key uid t) rec (kv w)"
  shows "map_of (kv w') key = Some (statusData, ttl)" "reportable env w' key statusData ttl p"
proof -
  have "report_error_key uid t \<noteq> key"
    by (rule report_error_key_not_status[OF assms(1)])
  then show k: "map_of (kv w') key = Some (statusData, ttl)"
    using assms(2,3) by (simp add: update_conv' reportable_def)
  then show "reportable env w' key statusData ttl p"
    using assms(2) by (simp add: reportable_def)
qed

lemma user_address_None_iff: "user_address found = None \<longleftrightarrow> lacks_address found"
  by (cases found; cases "email (the found)")
     (auto simp: user_address_def lacks_address_def split: option.splits)





lemma getUserEmail_kv: "kv (snd (getUserEmail env uid w)) = kv w"
  by (simp add: getUserEmail_def redis_get_def issued_frame split: sum.splits option.splits)

lemma report_entry_lookup_failure:
  assumes "reportable env w0 key statusData ttl p" and "\<not> rejected w0"
    and "getUserEmail env uid (issued w0) = (Inl e, w1)"
  shows "report_entry env key uid w0 = (Inl e, w1)"
  using assms
  by (auto simp: report_entry_def reportable_def redis_get_def deliver_def)

lemma report_key_recorded:
  assumes "report_entry env key (key_user key) w0 = (Inl e, w1)" and "kv w1 = kv w0"
    and "\<not> rejected w1"
  shows "\<exists>t ts. kv (snd (report_key env key w0)) =
           AList.update (report_error_key (key_user key) t)
             (JSON_stringify env (report_error_record (key_user key) key e ts), Some 86400) (kv w0)"
proof -
  obtain t w2 where d1: "Date_now w1 = (t, w2)" by (cases "Date_now w1")
  obtain t1 w3 where d2: "Date_now w2 = (t1, w3)" by (cases "Date_now w2")
  have f: "kv w3 = kv w0" "\<not> rejected w3"
    using d1 d2 Date_now_frame[of w1] Date_now_frame[of w2] Date_now_rejected[of w1]
      Date_now_rejected[of w2] assms(2,3)
    by auto
  have "kv (snd (report_key env key w0)) =
          AList.update (report_error_key (key_user key) t)
             (JSON_stringify env (report_error_record (key_user key) key e (toISOString env t1)),
              Some 86400) (kv w0)"
    using assms(1) d1 d2 f by (simp add: report_key_def redis_setEx_def issued_frame)
  then show ?thesis by blast
qed


subsection \<open>The example status record\<close>

lemma key_user_status: "key_user ''bulk_status:u1:1001'' = ''u1''"
  by (simp add: key_user_def)

lemma status_key_prefix: "starts_with ''bulk_status:'' ''bulk_status:u1:1001''"
  by (simp add: starts_with_def)

lemma sample_report_sent:
  "report_sent sample_env ''u1'' p (sample_world es)"
  by (simp add: report_sent_def getUserEmail_def sample_env_def user_address_def
      generatePDFReport_def sendReportEmail_def Date_now_def sample_world_def)

lemma failing_mail_fails:
  "report_fails failing_mail_env ''u1'' p (w :: js_object list world) (Error ''Connection timeout'')"
  by (simp add: report_fails_def getUserEmail_def failing_mail_env_def sample_env_def user_address_def
      generatePDFReport_def sendReportEmail_def Date_now_def split: list.splits)

lemma sample_reportable_any:
  "JSON_parse env = sample_parse \<Longrightarrow> kv w = [(k, (status_text, Some 86400))] \<Longrightarrow>
   reportable env w k status_text (Some 86400) status_value"
  by (simp add: reportable_def status_text_def status_value_def sample_parse_def three_books_def)

lemma key_user_status_u2: "key_user ''bulk_status:u2:1001'' = ''u2''"
  by (simp add: key_user_def)

lemma status_key_prefix_u2: "starts_with ''bulk_status:'' ''bulk_status:u2:1001''"
  by (simp add: starts_with_def)


lemma sample_users:
  "User_findById sample_env d ''u1'' = Inr (Some \<lparr>email = Some ''reader@example.com''\<rparr>)"
  "User_findById sample_env d ''u2'' = Inr (Some \<lparr>email = None\<rparr>)"
  "User_findById sample_env d ''u3'' = Inr None"
  by (simp_all add: sample_env_def)

section \<open>Claims on the Ingestion Job\<close>





text \<open>
  Claim C2, as stated, fails: a value that does not parse is not deleted. \<^verbatim>\<open>JSON.parse\<close>
  throws, the \<^verbatim>\<open>catch\<close> block of lines 123-138 writes a Batch Error Record, and nothing
  on that path deletes the key.
\<close>

theorem unparseable_batch_is_kept:
  "JSON_parse sample_env ''{oops'' = Inl (SyntaxError ''Unexpected token in JSON'')
   \<and> map_of (kv (processBulkBooks sample_env (sample_world [(''bulk_books:u1'', (''{oops'', None))])))
        ''bulk_books:u1'' = Some (''{oops'', None)"
proof -
  let ?w = "sample_world [(''bulk_books:u1'', (''{oops'', None))]"
  have p: "JSON_parse sample_env ''{oops'' = Inl (SyntaxError ''Unexpected token in JSON'')"
    by (simp add: sample_env_def sample_parse_def three_books_def status_text_def)
  have one: "processBulkBooks sample_env ?w = snd (process_key sample_env ''bulk_books:u1'' ?w)"
    by (rule processBulkBooks_single) (simp_all add: sample_world_sel starts_with_def)
  have m: "map_of (kv ?w) ''bulk_books:u1'' = Some (''{oops'', None)"
    by (simp add: sample_world_sel)
  have "map_of (kv (snd (process_key sample_env ''bulk_books:u1'' ?w))) ''bulk_books:u1''
          = Some (''{oops'', None)"
    unfolding process_key_unparsed[OF sample_world_sel(2) m _ p, simplified]
    by (simp add: update_conv' sample_world_sel key_user_u1)
  with p one show ?thesis by simp
qed

text \<open>
  Claim C2, amended. While Redis accepts every command, a pending batch key with a
  non-empty value is treated as follows. If the value parses to an empty sequence or to
  a value that is no sequence, the key is deleted, nothing else is written, and so no
  status record is. If the value fails to parse, a Batch Error Record with an expiry of
  24 hours is written under \<^verbatim>\<open>bulk_error:{userId}:{epochMillis}\<close>, the key stays in place
  with its value, and no status record is written either.
\<close>

theorem malformed_batch_dropped_or_reported:
  fixes env :: "'db env" and w :: "'db world"
  assumes "starts_with ''bulk_books:'' key"
    and "map_of (kv w) key = Some (booksData, ttl)" and "booksData \<noteq> []"
    and "faults w = []"
  shows "(\<forall>v. JSON_parse env booksData = Inr v \<and> (v = JArray [] \<or> (\<forall>xs. v \<noteq> JArray xs)) \<longrightarrow>
             kv (snd (process_key env key w)) = AList.delete key (kv w)
           \<and> map_of (kv (snd (process_key env key w))) key = None
           \<and> (\<forall>k. starts_with ''bulk_status:'' k \<longrightarrow>
                  map_of (kv (snd (process_key env key w))) k = map_of (kv w) k))
       \<and> (\<forall>e. JSON_parse env booksData = Inl e \<longrightarrow>
             kv (snd (process_key env key w)) =
               AList.update
                 (''bulk_error:'' @ key_user key @ '':'' @ decimal (fst (Date_now (snd (Date_now w)))))
                 (JSON_stringify env
                     (JObject [(''userId'', JString (key_user key)),
                               (''error'', JString (message e)),
                               (''timestamp'', JString (toISOString env (now w))),
                               (''status'', JString ''failed'')]), Some 86400) (kv w)
           \<and> map_of (kv (snd (process_key env key w))) key = Some (booksData, ttl)
           \<and> (\<forall>k. starts_with ''bulk_status:'' k \<longrightarrow>
                  map_of (kv (snd (process_key env key w))) k = map_of (kv w) k))"
proof (intro conjI allI impI)
  fix v
  assume a: "JSON_parse env booksData = Inr v \<and> (v = JArray [] \<or> (\<forall>xs. v \<noteq> JArray xs))"
  then have pk: "process_key env key w = (Inr (), w\<lparr>kv := AList.delete key (kv w)\<rparr>)"
    using process_key_invalid[OF assms(4) assms(2) assms(3)] by blast
  show "kv (snd (process_key env key w)) = AList.delete key (kv w)"
    using pk by simp
  show "map_of (kv (snd (process_key env key w))) key = None"
    using pk by (simp add: delete_conv')
  fix k
  assume "starts_with ''bulk_status:'' k"
  then have "k \<noteq> key" using assms(1) by (rule status_prefix_pending)
  then show "map_of (kv (snd (process_key env key w))) k = map_of (kv w) k"
    using pk by simp
next
  fix e
  assume a: "JSON_parse env booksData = Inl e"
  note pk = process_key_unparsed[OF assms(4) assms(2) assms(3) a]
  show "kv (snd (process_key env key w)) =
               AList.update
                 (''bulk_error:'' @ key_user key @ '':'' @ decimal (fst (Date_now (snd (Date_now w)))))
                 (JSON_stringify env
                     (JObject [(''userId'', JString (key_user key)),
                               (''error'', JString (message e)),
                               (''timestamp'', JString (toISOString env (now w))),
                               (''status'', JString ''failed'')]), Some 86400) (kv w)"
    using pk by simp
  have "map_of (AList.update
                 (''bulk_error:'' @ key_user key @ '':'' @ decimal (fst (Date_now (snd (Date_now w)))))
                 val (kv w)) key = map_of (kv w) key" for val
  proof -
    have "''bulk_error:'' @ key_user key @ '':'' @ decimal (fst (Date_now (snd (Date_now w)))) \<noteq> key"
      by (rule error_key_fresh[OF assms(1)])
    then show ?thesis by (simp add: update_conv')
  qed
  then show "map_of (kv (snd (process_key env key w))) key = Some (booksData, ttl)"
    using assms(2) unfolding pk by simp
  fix k
  assume "starts_with ''bulk_status:'' k"
  then have "''bulk_error:'' @ key_user key @ '':'' @ decimal (fst (Date_now (snd (Date_now w)))) \<noteq> k"
    by (rule status_prefix_fresh)
  then have "map_of (AList.update
                 (''bulk_error:'' @ key_user key @ '':'' @ decimal (fst (Date_now (snd (Date_now w)))))
                 val (kv w)) k = map_of (kv w) k" for val
    by (simp add: update_conv')
  then show "map_of (kv (snd (process_key env key w))) k = map_of (kv w) k"
    unfolding pk by simp
qed

theorem malformed_batch_dropped_or_reported_witness:
  "JSON_parse sample_env ''[]'' = Inr (JArray [])
   \<and> kv (snd (process_key sample_env ''bulk_books:u1''
               (sample_world [(''bulk_books:u1'', (''[]'', None))]))) = []
   \<and> JSON_parse sample_env ''7'' = Inr (JNumber 7)
   \<and> kv (snd (process_key sample_env ''bulk_books:u1''
               (sample_world [(''bulk_books:u1'', (''7'', None))]))) = []
   \<and> JSON_parse sample_env ''{oops'' = Inl (SyntaxError ''Unexpected token in JSON'')
   \<and> map fst (kv (snd (process_key sample_env ''bulk_books:u1''
               (sample_world [(''bulk_books:u1'', (''{oops'', None))]))))
        = [''bulk_books:u1'', ''bulk_error:u1:1001'']
   \<and> map_of (kv (snd (process_key sample_env ''bulk_books:u1''
               (sample_world [(''bulk_books:u1'', (''{oops'', None))])))) ''bulk_books:u1''
        = Some (''{oops'', None)"
proof -
  have a: "kv (snd (process_key sample_env ''bulk_books:u1''
               (sample_world [(''bulk_books:u1'', (''[]'', None))]))) = []"
    using malformed_batch_dropped_or_reported[where env=sample_env and key="''bulk_books:u1''"
        and w="sample_world [(''bulk_books:u1'', (''[]'', None))]" and booksData="''[]''"
        and ttl=None, OF pending_u1, THEN conjunct1, rule_format, of "JArray []"]
    by (simp add: sample_world_sel sample_parse_facts)
  have b: "kv (snd (process_key sample_env ''bulk_books:u1''
               (sample_world [(''bulk_books:u1'', (''7'', None))]))) = []"
    using malformed_batch_dropped_or_reported[where env=sample_env and key="''bulk_books:u1''"
        and w="sample_world [(''bulk_books:u1'', (''7'', None))]" and booksData="''7''"
        and ttl=None, OF pending_u1, THEN conjunct1, rule_format, of "JNumber 7"]
    by (simp add: sample_world_sel sample_parse_facts)
  have c: "kv (snd (process_key sample_env ''bulk_books:u1''
               (sample_world [(''bulk_books:u1'', (''{oops'', None))])))
            = AList.update ''bulk_error:u1:1001''
                 (JSON_stringify sample_env
                     (JObject [(''userId'', JString ''u1''),
                               (''error'', JString ''Unexpected token in JSON''),
                               (''timestamp'', JString (toISOString sample_env 1000)),
                               (''status'', JString ''failed'')]), Some 86400)
                 [(''bulk_books:u1'', (''{oops'', None))]"
    using malformed_batch_dropped_or_reported[where env=sample_env and key="''bulk_books:u1''"
        and w="sample_world [(''bulk_books:u1'', (''{oops'', None))]" and booksData="''{oops''"
        and ttl=None, OF pending_u1, THEN conjunct2, rule_format,
        of "SyntaxError ''Unexpected token in JSON''"]
    by (simp add: sample_world_sel sample_parse_facts key_user_u1 sample_clock)
  show ?thesis
    unfolding a b c by (simp add: sample_parse_facts)
qed




text \<open>
  Claim C7 fails on the Ingestion Job: it creates books for a user and never deletes the
  user's cached book list, which every route that changes the user's books does through
  \<^verbatim>\<open>invalidateUserCache\<close>. Here user \<^verbatim>\<open>u1\<close> has an empty list cached and a pending batch
  of one book: after the job the book is in the document store and the cache entry
  still holds the empty list.
\<close>

theorem ingestion_keeps_cached_book_list:
  \<open>db (processBulkBooks sample_env
         (sample_world [(getUserCacheKey ''u1'' ''books'', (''[]'', Some 3600)),
                        (''bulk_books:u1'', (''[{"title":"A","author":"X"}]'', None))]))
     = db (sample_world [])
         @ [new_Book ''u1'' (JObject [(''title'', JString ''A''), (''author'', JString ''X'')])]
   \<and> map_of (kv (processBulkBooks sample_env
         (sample_world [(getUserCacheKey ''u1'' ''books'', (''[]'', Some 3600)),
                        (''bulk_books:u1'', (''[{"title":"A","author":"X"}]'', None))])))
        (getUserCacheKey ''u1'' ''books'') = Some (''[]'', Some 3600)\<close>
proof -
  let ?text = \<open>''[{"title":"A","author":"X"}]''\<close>
  let ?w = "sample_world [(getUserCacheKey ''u1'' ''books'', (''[]'', Some 3600)),
                          (''bulk_books:u1'', (?text, None))]"
  let ?books = "[JObject [(''title'', JString ''A''), (''author'', JString ''X'')]]"
  have one: "processBulkBooks sample_env ?w = snd (process_key sample_env ''bulk_books:u1'' ?w)"
    by (rule processBulkBooks_single)
       (simp_all add: sample_world_sel starts_with_def getUserCacheKey_def)
  have m: "map_of (kv ?w) ''bulk_books:u1'' = Some (?text, None)"
    by (simp add: sample_world_sel getUserCacheKey_def)
  have pb: "snd (process_books sample_env ''u1'' ?books 0
                \<lparr>userId = ''u1'', totalBooks = length ?books, successCount = 0,
                 failureCount = 0, timestamp = toISOString sample_env (now ?w), failures = []\<rparr> (db ?w))
            = db (sample_world []) @ [new_Book ''u1'' (JObject [(''title'', JString ''A''), (''author'', JString ''X'')])]"
    by (simp add: insertBook_def sample_env_def sample_world_def unique_isbn_save_def new_Book_def)
  from process_key_batch[OF sample_world_sel(2) m _ parse_one_book, unfolded key_user_u1 sample_clock]
  obtain st w' where pk: "process_key sample_env ''bulk_books:u1'' ?w = (Inr (), w')"
    and kv': "kv w' = AList.delete ''bulk_books:u1''
                (AList.update ''bulk_status:u1:1001''
                   (JSON_stringify sample_env (status_json st), Some 86400) (kv ?w))"
    and db': "db w' = snd (process_books sample_env ''u1'' ?books 0
                \<lparr>userId = ''u1'', totalBooks = length ?books, successCount = 0,
                 failureCount = 0, timestamp = toISOString sample_env (now ?w), failures = []\<rparr> (db ?w))"
    by auto
  have "map_of (kv w') (getUserCacheKey ''u1'' ''books'') = Some (''[]'', Some 3600)"
    unfolding kv' by (simp add: update_conv' sample_world_sel getUserCacheKey_def)
  moreover have "db w' = db (sample_world []) @ [new_Book ''u1'' (JObject [(''title'', JString ''A''), (''author'', JString ''X'')])]"
    unfolding db' pb ..
  ultimately show ?thesis
    unfolding one pk by simp
qed

section \<open>Claims on the Report Job\<close>

text \<open>
  Claim C3, as stated, fails: no guard stands before the division, and for a status record
  with \<open>totalBooks = 0\<close> and \<open>successCount = 0\<close> both renderings print the rate
  \<^verbatim>\<open>NaN%\<close>, neither \<^verbatim>\<open>0\<close> nor \<^verbatim>\<open>N/A\<close>.
\<close>

theorem rate_of_empty_record_is_NaN:
  "pdf_summary sample_env
     \<lparr>userId = ''u1'', totalBooks = 0, successCount = 0, failureCount = 0,
      timestamp = ''1970-01-01T00:00:01.000Z'', failures = []\<rparr>
     = Inr [''Total Books Processed: 0'', ''Successful Insertions: 0'', ''Failed Insertions: 0'',
            ''Success Rate: NaN%'']
   \<and> mail_rate_item sample_env
     \<lparr>userId = ''u1'', totalBooks = 0, successCount = 0, failureCount = 0,
      timestamp = ''1970-01-01T00:00:01.000Z'', failures = []\<rparr>
     = Inr ''<li><strong>Success Rate:</strong> NaN%</li>''"
  by (simp add: pdf_summary_def mail_rate_item_def success_rate_def toFixed_def js_multiply_def
      js_divide_def decimal.simps digit_char_def)

text \<open>
  Claim C3, amended. For every status record with \<open>totalBooks = 0\<close> the success-rate
  computation does not throw, in the PDF summary and in the message body alike; the
  rate it prints is \<^verbatim>\<open>NaN\<close> when \<open>successCount\<close> is \<open>0\<close> too and \<^verbatim>\<open>Infinity\<close> otherwise.
\<close>

theorem zero_total_rate:
  assumes "totalBooks statusData = 0"
  shows "success_rate env statusData
           = Inr (if successCount statusData = 0 then ''NaN'' else ''Infinity'')
       \<and> pdf_summary env statusData
           = Inr [''Total Books Processed: 0'',
                  ''Successful Insertions: '' @ decimal (successCount statusData),
                  ''Failed Insertions: '' @ decimal (failureCount statusData),
                  ''Success Rate: '' @ (if successCount statusData = 0 then ''NaN'' else ''Infinity'')
                    @ ''%'']
       \<and> mail_rate_item env statusData
           = Inr (''<li><strong>Success Rate:</strong> ''
                  @ (if successCount statusData = 0 then ''NaN'' else ''Infinity'') @ ''%</li>'')"
proof -
  have d0: "decimal 0 = ''0''" by (simp add: decimal.simps digit_char_def)
  have r: "success_rate env statusData
             = Inr (if successCount statusData = 0 then ''NaN'' else ''Infinity'')"
    using assms by (simp add: success_rate_def toFixed_def js_multiply_def js_divide_def)
  show ?thesis
    unfolding pdf_summary_def mail_rate_item_def r using assms d0 by simp
qed

theorem zero_total_rate_witness:
  "success_rate sample_env
     \<lparr>userId = ''u1'', totalBooks = 0, successCount = 2, failureCount = 0,
      timestamp = ''1970-01-01T00:00:01.000Z'', failures = []\<rparr> = Inr ''Infinity''
   \<and> success_rate sample_env
     \<lparr>userId = ''u1'', totalBooks = 0, successCount = 0, failureCount = 0,
      timestamp = ''1970-01-01T00:00:01.000Z'', failures = []\<rparr> = Inr ''NaN''
   \<and> pdf_summary sample_env
     \<lparr>userId = ''u1'', totalBooks = 0, successCount = 2, failureCount = 0,
      timestamp = ''1970-01-01T00:00:01.000Z'', failures = []\<rparr>
     = Inr [''Total Books Processed: 0'', ''Successful Insertions: 2'', ''Failed Insertions: 0'',
            ''Success Rate: Infinity%'']"
proof -
  have d: "decimal 0 = ''0''" "decimal 2 = ''2''" by (simp_all add: decimal.simps digit_char_def)
  show ?thesis
    using zero_total_rate[of "\<lparr>userId = ''u1'', totalBooks = 0, successCount = 2, failureCount = 0,
      timestamp = ''1970-01-01T00:00:01.000Z'', failures = []\<rparr>" sample_env]
      zero_total_rate[of "\<lparr>userId = ''u1'', totalBooks = 0, successCount = 0, failureCount = 0,
      timestamp = ''1970-01-01T00:00:01.000Z'', failures = []\<rparr>" sample_env]
    by (simp add: d)
qed

text \<open>
  Claim C4. A status record the Report Job goes on to report, processed while Redis
  accepts every command. If lookup, rendering and sending succeed, the status key is
  deleted. If one of them throws \<open>e\<close>, the only change to Redis is a Report Error Record
  for \<open>e\<close> with an expiry of 24 hours under \<^verbatim>\<open>report_error:{userId}:{t}\<close>, \<open>t\<close> being the
  clock reading of the handler; the status key keeps its value and is reportable again
  on a later pass. A later pass (one whose clock is beyond \<open>t\<close>) that fails again writes
  its record under a different key, and afterwards both records are there.
\<close>

theorem report_outcome:
  fixes env :: "'db env" and w :: "'db world"
  assumes "starts_with ''bulk_status:'' key"
    and "reportable env w key statusData ttl parsedStatus"
    and "faults w = []"
  shows "(report_sent env (key_user key) parsedStatus w \<longrightarrow>
            map_of (kv (snd (report_key env key w))) key = None)
       \<and> (\<forall>e. report_fails env (key_user key) parsedStatus w e \<longrightarrow>
            (\<exists>t ts. now w \<le> t \<and> t \<le> now (snd (report_key env key w))
               \<and> kv (snd (report_key env key w)) =
                   AList.update (report_error_key (key_user key) t)
                     (JSON_stringify env (report_error_record (key_user key) key e ts), Some 86400)
                     (kv w)
               \<and> map_of (kv (snd (report_key env key w))) key = Some (statusData, ttl)
               \<and> reportable env (snd (report_key env key w)) key statusData ttl parsedStatus
               \<and> (\<forall>w2 e2. kv w2 = kv (snd (report_key env key w)) \<and> faults w2 = [] \<and> t < now w2
                     \<and> report_fails env (key_user key) parsedStatus w2 e2 \<longrightarrow>
                   (\<exists>t2 ts2. t < t2
                      \<and> report_error_key (key_user key) t2 \<noteq> report_error_key (key_user key) t
                      \<and> map_of (kv (snd (report_key env key w2))) (report_error_key (key_user key) t)
                          = Some (JSON_stringify env
                                    (report_error_record (key_user key) key e ts), Some 86400)
                      \<and> map_of (kv (snd (report_key env key w2))) (report_error_key (key_user key) t2)
                          = Some (JSON_stringify env
                                    (report_error_record (key_user key) key e2 ts2), Some 86400)
                      \<and> map_of (kv (snd (report_key env key w2))) key = Some (statusData, ttl)))))"
proof (intro conjI allI impI)
  assume "report_sent env (key_user key) parsedStatus w"
  from report_key_sent[OF assms(3,2) this]
  show "map_of (kv (snd (report_key env key w))) key = None"
    by (simp add: delete_conv')
next
  fix e
  let ?uid = "key_user key"
  assume fails: "report_fails env ?uid parsedStatus w e"
  from report_key_failed[OF assms(3,2) this]
  obtain t ts w' where first: "report_key env key w = (Inr (), w')" "now w \<le> t"
    "kv w' = AList.update (report_error_key ?uid t)
                 (JSON_stringify env (report_error_record ?uid key e ts), Some 86400) (kv w)"
    "t \<le> now w'"
    by blast
  note kept = report_key_failed_keeps[OF assms(1,2) first(3)]
  have second: "\<exists>t2 ts2. t < t2
                      \<and> report_error_key ?uid t2 \<noteq> report_error_key ?uid t
                      \<and> map_of (kv (snd (report_key env key w2))) (report_error_key ?uid t)
                          = Some (JSON_stringify env (report_error_record ?uid key e ts), Some 86400)
                      \<and> map_of (kv (snd (report_key env key w2))) (report_error_key ?uid t2)
                          = Some (JSON_stringify env (report_error_record ?uid key e2 ts2), Some 86400)
                      \<and> map_of (kv (snd (report_key env key w2))) key = Some (statusData, ttl)"
    if later: "kv w2 = kv (snd (report_key env key w)) \<and> faults w2 = [] \<and> t < now w2
                     \<and> report_fails env ?uid parsedStatus w2 e2" for w2 e2
  proof -
    have kv2: "kv w2 = kv w'" using later first(1) by simp
    have r2: "reportable env w2 key statusData ttl parsedStatus"
      using kept(2) reportable_kv[OF kv2] by simp
    from later have h: "faults w2 = []" "report_fails env ?uid parsedStatus w2 e2" "t < now w2"
      by simp_all
    from report_key_failed[OF h(1) r2 h(2)]
    obtain t2 ts2 w'' where again: "report_key env key w2 = (Inr (), w'')" "now w2 \<le> t2"
      "kv w'' = AList.update (report_error_key ?uid t2)
                 (JSON_stringify env (report_error_record ?uid key e2 ts2), Some 86400) (kv w2)"
      by blast
    have lt: "t < t2" using h(3) again(2) by simp
    then have ne: "report_error_key ?uid t2 \<noteq> report_error_key ?uid t"
      using report_error_key_inj[of ?uid t2 t] by auto
    have old: "map_of (kv w'') (report_error_key ?uid t)
                 = Some (JSON_stringify env (report_error_record ?uid key e ts), Some 86400)"
      using again(3) kv2 first(3) ne by (simp add: update_conv')
    have new: "map_of (kv w'') (report_error_key ?uid t2)
                 = Some (JSON_stringify env (report_error_record ?uid key e2 ts2), Some 86400)"
      using again(3) by (simp add: update_conv')
    have still: "map_of (kv w'') key = Some (statusData, ttl)"
      by (rule report_key_failed_keeps(1)[OF assms(1) r2 again(3)])
    show ?thesis
      using lt ne old new still again(1) by auto
  qed
  show "\<exists>t ts. now w \<le> t \<and> t \<le> now (snd (report_key env key w))
               \<and> kv (snd (report_key env key w)) =
                   AList.update (report_error_key ?uid t)
                     (JSON_stringify env (report_error_record ?uid key e ts), Some 86400)
                     (kv w)
               \<and> map_of (kv (snd (report_key env key w))) key = Some (statusData, ttl)
               \<and> reportable env (snd (report_key env key w)) key statusData ttl parsedStatus
               \<and> (\<forall>w2 e2. kv w2 = kv (snd (report_key env key w)) \<and> faults w2 = [] \<and> t < now w2
                     \<and> report_fails env ?uid parsedStatus w2 e2 \<longrightarrow>
                   (\<exists>t2 ts2. t < t2
                      \<and> report_error_key ?uid t2 \<noteq> report_error_key ?uid t
                      \<and> map_of (kv (snd (report_key env key w2))) (report_error_key ?uid t)
                          = Some (JSON_stringify env
                                    (report_error_record ?uid key e ts), Some 86400)
                      \<and> map_of (kv (snd (report_key env key w2))) (report_error_key ?uid t2)
                          = Some (JSON_stringify env
                                    (report_error_record ?uid key e2 ts2), Some 86400)
                      \<and> map_of (kv (snd (report_key env key w2))) key = Some (statusData, ttl)))"
    apply (rule exI[of _ t])
    apply (rule exI[of _ ts])
    using first kept second by simp
qed

text \<open>
  With the example environment the report is sent and the key deleted; with a transport
  that refuses the message the key stays, and a second pass five minutes later leaves
  two error records.
\<close>

theorem report_outcome_witness:
  "map_of (kv (snd (report_key sample_env ''bulk_status:u1:1001''
       (sample_world [(''bulk_status:u1:1001'', (status_text, Some 86400))])))) ''bulk_status:u1:1001''
     = None
   \<and> (\<exists>t ts. map_of (kv (snd (report_key failing_mail_env ''bulk_status:u1:1001''
            (sample_world [(''bulk_status:u1:1001'', (status_text, Some 86400))]))))
          ''bulk_status:u1:1001'' = Some (status_text, Some 86400)
        \<and> kv (snd (report_key failing_mail_env ''bulk_status:u1:1001''
            (sample_world [(''bulk_status:u1:1001'', (status_text, Some 86400))])))
          = [(''bulk_status:u1:1001'', (status_text, Some 86400)),
             (report_error_key ''u1'' t,
              (JSON_stringify failing_mail_env
                 (report_error_record ''u1'' ''bulk_status:u1:1001'' (Error ''Connection timeout'') ts),
               Some 86400))]
        \<and> (\<exists>t2 ts2. t < t2
             \<and> map_of (kv (snd (report_key failing_mail_env ''bulk_status:u1:1001''
                  ((snd (report_key failing_mail_env ''bulk_status:u1:1001''
                     (sample_world [(''bulk_status:u1:1001'', (status_text, Some 86400))])))
                   \<lparr>faults := [],
                    now := now (snd (report_key failing_mail_env ''bulk_status:u1:1001''
                     (sample_world [(''bulk_status:u1:1001'', (status_text, Some 86400))]))) + 300000\<rparr>))))
                 (report_error_key ''u1'' t)
               = Some (JSON_stringify failing_mail_env
                 (report_error_record ''u1'' ''bulk_status:u1:1001'' (Error ''Connection timeout'') ts),
               Some 86400)
             \<and> map_of (kv (snd (report_key failing_mail_env ''bulk_status:u1:1001''
                  ((snd (report_key failing_mail_env ''bulk_status:u1:1001''
                     (sample_world [(''bulk_status:u1:1001'', (status_text, Some 86400))])))
                   \<lparr>faults := [],
                    now := now (snd (report_key failing_mail_env ''bulk_status:u1:1001''
                     (sample_world [(''bulk_status:u1:1001'', (status_text, Some 86400))]))) + 300000\<rparr>))))
                 (report_error_key ''u1'' t2)
               = Some (JSON_stringify failing_mail_env
                 (report_error_record ''u1'' ''bulk_status:u1:1001'' (Error ''Connection timeout'') ts2),
               Some 86400)))"
proof -
  let ?k = "''bulk_status:u1:1001''"
  let ?w = "sample_world [(?k, (status_text, Some 86400))]"
  let ?e = "Error ''Connection timeout''"
  let ?w' = "snd (report_key failing_mail_env ?k ?w)"
  let ?w2 = "?w'\<lparr>faults := [], now := now ?w' + 300000\<rparr>"
  have r1: "reportable sample_env ?w ?k status_text (Some 86400) status_value"
    by (rule sample_reportable_any) (simp_all add: sample_env_def sample_world_def)
  have r2: "reportable failing_mail_env ?w ?k status_text (Some 86400) status_value"
    by (rule sample_reportable_any) (simp_all add: sample_env_def failing_mail_env_def sample_world_def)
  have sent: "map_of (kv (snd (report_key sample_env ?k ?w))) ?k = None"
    using report_outcome[OF status_key_prefix r1 sample_world_sel(2), THEN conjunct1]
      sample_report_sent
    by (simp add: key_user_status)
  note inst = report_outcome[OF status_key_prefix r2 sample_world_sel(2), THEN conjunct2,
      rule_format, of ?e, unfolded key_user_status, OF failing_mail_fails]
  from inst obtain t ts where first:
    "t \<le> now ?w'"
    "kv ?w' = AList.update (report_error_key ''u1'' t)
                (JSON_stringify failing_mail_env (report_error_record ''u1'' ?k ?e ts), Some 86400) (kv ?w)"
    "map_of (kv ?w') ?k = Some (status_text, Some 86400)"
    and later: "\<forall>w2 e2. kv w2 = kv ?w' \<and> faults w2 = [] \<and> t < now w2
                     \<and> report_fails failing_mail_env ''u1'' status_value w2 e2 \<longrightarrow>
                   (\<exists>t2 ts2. t < t2
                      \<and> report_error_key ''u1'' t2 \<noteq> report_error_key ''u1'' t
                      \<and> map_of (kv (snd (report_key failing_mail_env ?k w2))) (report_error_key ''u1'' t)
                          = Some (JSON_stringify failing_mail_env
                                    (report_error_record ''u1'' ?k ?e ts), Some 86400)
                      \<and> map_of (kv (snd (report_key failing_mail_env ?k w2))) (report_error_key ''u1'' t2)
                          = Some (JSON_stringify failing_mail_env
                                    (report_error_record ''u1'' ?k e2 ts2), Some 86400)
                      \<and> map_of (kv (snd (report_key failing_mail_env ?k w2))) ?k
                          = Some (status_text, Some 86400))"
    by blast
  have ne: "report_error_key ''u1'' t \<noteq> ?k"
    by (rule report_error_key_not_status[OF status_key_prefix])
  have store: "kv ?w' = [(?k, (status_text, Some 86400)),
             (report_error_key ''u1'' t,
              (JSON_stringify failing_mail_env (report_error_record ''u1'' ?k ?e ts), Some 86400))]"
    unfolding first(2) using ne by (simp add: sample_world_sel)
  have "kv ?w2 = kv ?w' \<and> faults ?w2 = [] \<and> t < now ?w2
          \<and> report_fails failing_mail_env ''u1'' status_value ?w2 ?e"
    using first(1) failing_mail_fails by simp
  with later obtain t2 ts2 where second: "t < t2"
    "map_of (kv (snd (report_key failing_mail_env ?k ?w2))) (report_error_key ''u1'' t)
       = Some (JSON_stringify failing_mail_env (report_error_record ''u1'' ?k ?e ts), Some 86400)"
    "map_of (kv (snd (report_key failing_mail_env ?k ?w2))) (report_error_key ''u1'' t2)
       = Some (JSON_stringify failing_mail_env (report_error_record ''u1'' ?k ?e ts2), Some 86400)"
    by blast
  show ?thesis
    using sent first(3) store second by blast
qed





text \<open>
  Claim C10. For a reportable status record whose read Redis accepts: when the lookup of
  the user document throws, or the user has no address and the read of the cached
  address is rejected, \<^verbatim>\<open>getUserEmail\<close> ends with that error and so does the \<^verbatim>\<open>try\<close> block
  of the record; the status key keeps its value, and the handler's write, if Redis
  accepts it, stores a Report Error Record for that error with an expiry of 24 hours.
  Conversely, whenever \<^verbatim>\<open>getUserEmail\<close> returns an address, the lookup of the document
  has not thrown, nor has the read of the cache if it was needed: the default address
  never stands in for an error.
\<close>

theorem lookup_errors_are_report_failures:
  fixes env :: "'db env" and w0 :: "'db world"
  assumes "starts_with ''bulk_status:'' key"
    and "reportable env w0 key statusData ttl parsedStatus"
    and "\<not> rejected w0"
  shows "(\<forall>e. User_findById env (db w0) (key_user key) = Inl e
              \<or> (\<exists>found. User_findById env (db w0) (key_user key) = Inr found \<and> lacks_address found
                    \<and> rejected (issued w0) \<and> e = redis_error)
            \<longrightarrow> fst (getUserEmail env (key_user key) (issued w0)) = Inl e
              \<and> fst (report_entry env key (key_user key) w0) = Inl e
              \<and> map_of (kv (snd (report_key env key w0))) key = Some (statusData, ttl)
              \<and> (\<not> rejected (snd (getUserEmail env (key_user key) (issued w0))) \<longrightarrow>
                   (\<exists>t ts. kv (snd (report_key env key w0)) =
                      AList.update (report_error_key (key_user key) t)
                        (JSON_stringify env (report_error_record (key_user key) key e ts), Some 86400)
                        (kv w0))))
       \<and> (\<forall>a. fst (getUserEmail env (key_user key) (issued w0)) = Inr a \<longrightarrow>
             (\<exists>found. User_findById env (db w0) (key_user key) = Inr found
                \<and> (lacks_address found \<longrightarrow> \<not> rejected (issued w0))))"
proof (intro conjI allI impI)
  fix e
  let ?uid = "key_user key"
  assume cause: "User_findById env (db w0) ?uid = Inl e
              \<or> (\<exists>found. User_findById env (db w0) ?uid = Inr found \<and> lacks_address found
                    \<and> rejected (issued w0) \<and> e = redis_error)"
  then show g: "fst (getUserEmail env ?uid (issued w0)) = Inl e"
    by (auto simp: getUserEmail_def issued_frame user_address_None_iff[symmetric] redis_get_def)
  obtain w1 where w1: "getUserEmail env ?uid (issued w0) = (Inl e, w1)"
    using g by (cases "getUserEmail env ?uid (issued w0)") auto
  have k1: "kv w1 = kv w0"
    using getUserEmail_kv[of env ?uid "issued w0"] w1 by (simp add: issued_frame)
  note re = report_entry_lookup_failure[OF assms(2,3) w1]
  show "fst (report_entry env key ?uid w0) = Inl e" using re by simp
  have rec: "kv (snd (report_key env key w0)) = kv w0
           \<or> (\<exists>t ts. kv (snd (report_key env key w0)) =
                      AList.update (report_error_key ?uid t)
                        (JSON_stringify env (report_error_record ?uid key e ts), Some 86400) (kv w0))"
  proof (cases "rejected w1")
    case False
    from report_key_recorded[OF re k1 False] show ?thesis by blast
  next
    case True
    obtain t w2 where d1: "Date_now w1 = (t, w2)" by (cases "Date_now w1")
    obtain t1 w3 where d2: "Date_now w2 = (t1, w3)" by (cases "Date_now w2")
    have "kv w3 = kv w0" "rejected w3"
      using d1 d2 Date_now_frame[of w1] Date_now_frame[of w2] Date_now_rejected[of w1]
        Date_now_rejected[of w2] k1 True
      by auto
    then show ?thesis
      using re d1 d2 by (simp add: report_key_def redis_setEx_def issued_frame)
  qed
  have m: "map_of (kv w0) key = Some (statusData, ttl)"
    using assms(2) by (simp add: reportable_def)
  show "map_of (kv (snd (report_key env key w0))) key = Some (statusData, ttl)"
    using rec
  proof (elim disjE exE)
    assume "kv (snd (report_key env key w0)) = kv w0"
    then show ?thesis using m by simp
  next
    fix t ts
    assume u: "kv (snd (report_key env key w0)) =
                      AList.update (report_error_key ?uid t)
                        (JSON_stringify env (report_error_record ?uid key e ts), Some 86400) (kv w0)"
    have "report_error_key ?uid t \<noteq> key"
      by (rule report_error_key_not_status[OF assms(1)])
    then show ?thesis using m unfolding u by (simp add: update_conv')
  qed
  assume "\<not> rejected (snd (getUserEmail env ?uid (issued w0)))"
  then have "\<not> rejected w1" using w1 by simp
  from report_key_recorded[OF re k1 this]
  show "\<exists>t ts. kv (snd (report_key env key w0)) =
                      AList.update (report_error_key ?uid t)
                        (JSON_stringify env (report_error_record ?uid key e ts), Some 86400) (kv w0)" .
next
  fix a
  assume "fst (getUserEmail env (key_user key) (issued w0)) = Inr a"
  then show "\<exists>found. User_findById env (db w0) (key_user key) = Inr found
                \<and> (lacks_address found \<longrightarrow> \<not> rejected (issued w0))"
    by (auto simp: getUserEmail_def issued_frame user_address_None_iff[symmetric] redis_get_def
        split: sum.splits option.splits if_splits)
qed

text \<open>
  A user lookup that throws, and a user without address whose cached address cannot be
  read because Redis rejects the second command of the pass.
\<close>

theorem lookup_errors_are_report_failures_witness:
  "fst (getUserEmail failing_lookup_env ''u1''
          (issued (sample_world [(''bulk_status:u1:1001'', (status_text, Some 86400))])))
     = Inl (Error ''Cast to ObjectId failed'')
   \<and> map_of (kv (snd (report_key failing_lookup_env ''bulk_status:u1:1001''
          (sample_world [(''bulk_status:u1:1001'', (status_text, Some 86400))]))))
        ''bulk_status:u1:1001'' = Some (status_text, Some 86400)
   \<and> (\<exists>t ts. kv (snd (report_key failing_lookup_env ''bulk_status:u1:1001''
          (sample_world [(''bulk_status:u1:1001'', (status_text, Some 86400))]))) =
         AList.update (report_error_key ''u1'' t)
           (JSON_stringify failing_lookup_env
              (report_error_record ''u1'' ''bulk_status:u1:1001'' (Error ''Cast to ObjectId failed'') ts),
            Some 86400)
           [(''bulk_status:u1:1001'', (status_text, Some 86400))])
   \<and> fst (getUserEmail sample_env ''u2''
          (issued ((sample_world [(''bulk_status:u2:1001'', (status_text, Some 86400))])
                     \<lparr>faults := [False, True]\<rparr>)))
     = Inl redis_error
   \<and> map_of (kv (snd (report_key sample_env ''bulk_status:u2:1001''
          ((sample_world [(''bulk_status:u2:1001'', (status_text, Some 86400))])
             \<lparr>faults := [False, True]\<rparr>))))
        ''bulk_status:u2:1001'' = Some (status_text, Some 86400)
   \<and> (\<exists>t ts. kv (snd (report_key sample_env ''bulk_status:u2:1001''
          ((sample_world [(''bulk_status:u2:1001'', (status_text, Some 86400))])
             \<lparr>faults := [False, True]\<rparr>))) =
         AList.update (report_error_key ''u2'' t)
           (JSON_stringify sample_env
              (report_error_record ''u2'' ''bulk_status:u2:1001'' redis_error ts), Some 86400)
           [(''bulk_status:u2:1001'', (status_text, Some 86400))])"
proof -
  let ?k1 = "''bulk_status:u1:1001''"
  let ?w1 = "sample_world [(?k1, (status_text, Some 86400))]"
  let ?k2 = "''bulk_status:u2:1001''"
  let ?w2 = "(sample_world [(?k2, (status_text, Some 86400))])\<lparr>faults := [False, True]\<rparr>"
  let ?e = "Error ''Cast to ObjectId failed''"
  have r1: "reportable failing_lookup_env ?w1 ?k1 status_text (Some 86400) status_value"
    by (rule sample_reportable_any) (simp_all add: failing_lookup_env_def sample_env_def sample_world_def)
  have a1: "\<not> rejected ?w1" by (simp add: rejected_def sample_world_def)
  have c1: "User_findById failing_lookup_env (db ?w1) ''u1'' = Inl ?e"
    by (simp add: failing_lookup_env_def)
  have n1: "\<not> rejected (snd (getUserEmail failing_lookup_env ''u1'' (issued ?w1)))"
    by (simp add: getUserEmail_def failing_lookup_env_def rejected_def issued_def sample_world_def)
  note i1 = lookup_errors_are_report_failures[OF status_key_prefix r1 a1, THEN conjunct1,
      rule_format, of ?e, unfolded key_user_status, OF disjI1, OF c1]
  have r2: "reportable sample_env ?w2 ?k2 status_text (Some 86400) status_value"
    by (rule sample_reportable_any) (simp_all add: sample_env_def sample_world_def)
  have a2: "\<not> rejected ?w2" by (simp add: rejected_def)
  have c2: "\<exists>found. User_findById sample_env (db ?w2) ''u2'' = Inr found \<and> lacks_address found
                    \<and> rejected (issued ?w2) \<and> redis_error = redis_error"
    by (simp add: sample_users lacks_address_def rejected_def issued_def)
  have n2: "\<not> rejected (snd (getUserEmail sample_env ''u2'' (issued ?w2)))"
    by (simp add: getUserEmail_def sample_users user_address_def redis_get_def rejected_def issued_def)
  note i2 = lookup_errors_are_report_failures[OF status_key_prefix_u2 r2 a2, THEN conjunct1,
      rule_format, of redis_error, unfolded key_user_status_u2, OF disjI2, OF c2]
  show ?thesis
    using i1 n1 i2 n2 by (simp add: sample_world_sel)
qed

end
